theory Spec2Isabelle
  imports Complex_Main "HOL-Library.Word" "HOL-Library.Signed_Division"
    "HOL-Library.Char_ord" "HOL-Library.List_Lexorder"
begin

unbundle bit_operations_syntax

section \<open>The operator engine of the interpreter (interp/operator.go)\<close>

text \<open>
  The engine computes on \<open>Object\<close>s, pairs of a value and a go/types type. A value is
  either a \<open>reflect.Value\<close> (a typed operand) or an \<open>exact.Value\<close> (an untyped
  constant). The machine is taken to be a 64-bit one: \<open>int\<close>, \<open>uint\<close> and \<open>uintptr\<close>
  are 64 bits wide.
\<close>

subsection \<open>go/types: basic kinds and types\<close>

datatype bkind =
    types_Bool
  | types_Int | types_Int8 | types_Int16 | types_Int32 | types_Int64
  | types_Uint | types_Uint8 | types_Uint16 | types_Uint32 | types_Uint64 | types_Uintptr
  | types_Float32 | types_Float64
  | types_Complex64 | types_Complex128
  | types_String
  | types_UnsafePointer
  | types_UntypedBool | types_UntypedInt | types_UntypedRune | types_UntypedFloat
  | types_UntypedComplex | types_UntypedString | types_UntypedNil

text \<open>In go/types the kind \<open>Rune\<close> is declared as an alias: \<open>Rune = Int32\<close>.\<close>

definition types_Rune :: bkind where
  "types_Rune = types_Int32"

datatype gotype =
    Basic bkind
  | Named string gotype
  | Pointer gotype
  | Slice gotype
  | Map gotype gotype
  | Chan gotype

fun Underlying :: "gotype \<Rightarrow> gotype" where
  "Underlying (Named n u) = Underlying u"
| "Underlying t = t"

fun isUntypedKind :: "bkind \<Rightarrow> bool" where
  "isUntypedKind types_UntypedBool = True"
| "isUntypedKind types_UntypedInt = True"
| "isUntypedKind types_UntypedRune = True"
| "isUntypedKind types_UntypedFloat = True"
| "isUntypedKind types_UntypedComplex = True"
| "isUntypedKind types_UntypedString = True"
| "isUntypedKind types_UntypedNil = True"
| "isUntypedKind k = False"

text \<open>
  Modelled from the spec: \<open>isTyped\<close> is not part of operator.go. A type is typed when
  its resolved kind is a concrete (non-untyped) kind; every type whose underlying type is
  not basic is typed.
\<close>

definition isTyped :: "gotype \<Rightarrow> bool" where
  "isTyped t = (case Underlying t of Basic k \<Rightarrow> \<not> isUntypedKind k | _ \<Rightarrow> True)"

fun isNamed :: "gotype \<Rightarrow> bool" where
  "isNamed (Named n u) = True"
| "isNamed t = False"

text \<open>\<open>types.Identical\<close>: two types are identical iff they denote the same type.\<close>

definition types_Identical :: "gotype \<Rightarrow> gotype \<Rightarrow> bool" where
  "types_Identical s t = (s = t)"

subsection \<open>reflect: kinds, types and values\<close>

datatype rkind =
    reflect_Invalid
  | reflect_Bool
  | reflect_Int | reflect_Int8 | reflect_Int16 | reflect_Int32 | reflect_Int64
  | reflect_Uint | reflect_Uint8 | reflect_Uint16 | reflect_Uint32 | reflect_Uint64
  | reflect_Uintptr
  | reflect_Float32 | reflect_Float64
  | reflect_Complex64 | reflect_Complex128
  | reflect_String
  | reflect_Ptr | reflect_Slice | reflect_Map | reflect_Chan | reflect_Func

text \<open>A \<open>reflect.Type\<close> is identified by its name and carries its kind.\<close>

datatype rtype = RType string rkind

text \<open>
  The storage of a \<open>reflect.Value\<close>, one constructor for each kind: integers have the
  width of their kind, floats are their IEEE 754 bit patterns, and a value of a reference
  kind is \<open>None\<close> when it is nil.
\<close>

datatype storage =
    VInvalid
  | VBool bool
  | VInt "64 word" | VInt8 "8 word" | VInt16 "16 word" | VInt32 "32 word" | VInt64 "64 word"
  | VUint "64 word" | VUint8 "8 word" | VUint16 "16 word" | VUint32 "32 word"
  | VUint64 "64 word" | VUintptr "64 word"
  | VFloat32 "32 word" | VFloat64 "64 word"
  | VComplex64 "32 word" "32 word" | VComplex128 "64 word" "64 word"
  | VString string
  | VPtr "nat option" | VSlice "nat option" | VMap "nat option" | VChan "nat option"
  | VFunc "nat option"

text \<open>A \<open>reflect.Value\<close>: the name of its type and its storage.\<close>

datatype rvalue = RV string storage

fun kindOf :: "storage \<Rightarrow> rkind" where
  "kindOf VInvalid = reflect_Invalid"
| "kindOf (VBool b) = reflect_Bool"
| "kindOf (VInt w) = reflect_Int"
| "kindOf (VInt8 w) = reflect_Int8"
| "kindOf (VInt16 w) = reflect_Int16"
| "kindOf (VInt32 w) = reflect_Int32"
| "kindOf (VInt64 w) = reflect_Int64"
| "kindOf (VUint w) = reflect_Uint"
| "kindOf (VUint8 w) = reflect_Uint8"
| "kindOf (VUint16 w) = reflect_Uint16"
| "kindOf (VUint32 w) = reflect_Uint32"
| "kindOf (VUint64 w) = reflect_Uint64"
| "kindOf (VUintptr w) = reflect_Uintptr"
| "kindOf (VFloat32 w) = reflect_Float32"
| "kindOf (VFloat64 w) = reflect_Float64"
| "kindOf (VComplex64 r i) = reflect_Complex64"
| "kindOf (VComplex128 r i) = reflect_Complex128"
| "kindOf (VString s) = reflect_String"
| "kindOf (VPtr p) = reflect_Ptr"
| "kindOf (VSlice p) = reflect_Slice"
| "kindOf (VMap p) = reflect_Map"
| "kindOf (VChan p) = reflect_Chan"
| "kindOf (VFunc p) = reflect_Func"

fun rv_Kind :: "rvalue \<Rightarrow> rkind" where
  "rv_Kind (RV n s) = kindOf s"

fun rv_Type :: "rvalue \<Rightarrow> rtype" where
  "rv_Type (RV n s) = RType n (kindOf s)"

text \<open>The zero storage of a kind.\<close>

fun zeroOf :: "rkind \<Rightarrow> storage" where
  "zeroOf reflect_Invalid = VInvalid"
| "zeroOf reflect_Bool = VBool False"
| "zeroOf reflect_Int = VInt 0"
| "zeroOf reflect_Int8 = VInt8 0"
| "zeroOf reflect_Int16 = VInt16 0"
| "zeroOf reflect_Int32 = VInt32 0"
| "zeroOf reflect_Int64 = VInt64 0"
| "zeroOf reflect_Uint = VUint 0"
| "zeroOf reflect_Uint8 = VUint8 0"
| "zeroOf reflect_Uint16 = VUint16 0"
| "zeroOf reflect_Uint32 = VUint32 0"
| "zeroOf reflect_Uint64 = VUint64 0"
| "zeroOf reflect_Uintptr = VUintptr 0"
| "zeroOf reflect_Float32 = VFloat32 0"
| "zeroOf reflect_Float64 = VFloat64 0"
| "zeroOf reflect_Complex64 = VComplex64 0 0"
| "zeroOf reflect_Complex128 = VComplex128 0 0"
| "zeroOf reflect_String = VString []"
| "zeroOf reflect_Ptr = VPtr None"
| "zeroOf reflect_Slice = VSlice None"
| "zeroOf reflect_Map = VMap None"
| "zeroOf reflect_Chan = VChan None"
| "zeroOf reflect_Func = VFunc None"

text \<open>\<open>reflect.New(t).Elem()\<close>: a settable zero value of type \<open>t\<close>.\<close>

fun reflect_New_Elem :: "rtype \<Rightarrow> rvalue" where
  "reflect_New_Elem (RType n k) = RV n (zeroOf k)"

text \<open>
  Modelled from the spec: \<open>getSettableZeroVal\<close> is not part of operator.go. The registry's
  \<open>allocateZero\<close> produces a fresh zero-valued storage slot of the given type, which the
  engine writes its result into.
\<close>

definition getSettableZeroVal :: "rtype \<Rightarrow> rvalue" where
  "getSettableZeroVal t = reflect_New_Elem t"

subsection \<open>Failures\<close>

text \<open>
  The operators return an \<open>Object\<close> and have no error result. They fail in three ways:
  \<open>log.Fatal\<close> prints its message and exits the process; \<open>panic(msg)\<close> is raised by the
  engine itself; and the Go runtime and the libraries (reflect, exact) panic on their own.
\<close>

datatype host_panic =
    IntegerDivideByZero
  | InterfaceConversion
  | ReflectValueError
  | UncomparableType
  | ReflectConvert
  | ExactKindMismatch

datatype error =
    Fatal string
  | Panic string
  | HostPanic host_panic

definition bindE :: "error + 'a \<Rightarrow> ('a \<Rightarrow> error + 'b) \<Rightarrow> error + 'b" where
  "bindE x f = (case x of Inl e \<Rightarrow> Inl e | Inr v \<Rightarrow> f v)"

subsection \<open>exact: untyped constant values\<close>

datatype exact_Value =
    exact_Unknown
  | exact_Bool bool
  | exact_String string
  | exact_Int int
  | exact_Float rat
  | exact_Complex rat rat

fun exact_BoolVal :: "exact_Value \<Rightarrow> error + bool" where
  "exact_BoolVal (exact_Bool b) = Inr b"
| "exact_BoolVal exact_Unknown = Inr False"
| "exact_BoolVal x = Inl (HostPanic ExactKindMismatch)"

fun exact_StringVal :: "exact_Value \<Rightarrow> error + string" where
  "exact_StringVal (exact_String s) = Inr s"
| "exact_StringVal exact_Unknown = Inr []"
| "exact_StringVal x = Inl (HostPanic ExactKindMismatch)"

text \<open>
  \<open>exact.Int64Val\<close> and \<open>exact.Uint64Val\<close> return the low 64 bits of the constant and a
  flag, which the engine drops, telling whether the constant fits.
\<close>

fun exact_Int64Val :: "exact_Value \<Rightarrow> error + 64 word" where
  "exact_Int64Val (exact_Int n) = Inr (word_of_int n)"
| "exact_Int64Val exact_Unknown = Inr 0"
| "exact_Int64Val x = Inl (HostPanic ExactKindMismatch)"

fun exact_Uint64Val :: "exact_Value \<Rightarrow> error + 64 word" where
  "exact_Uint64Val (exact_Int n) = Inr (word_of_int n)"
| "exact_Uint64Val exact_Unknown = Inr 0"
| "exact_Uint64Val x = Inl (HostPanic ExactKindMismatch)"

fun exact_Real :: "exact_Value \<Rightarrow> error + exact_Value" where
  "exact_Real (exact_Complex re im) = Inr (exact_Float re)"
| "exact_Real (exact_Int n) = Inr (exact_Int n)"
| "exact_Real (exact_Float q) = Inr (exact_Float q)"
| "exact_Real exact_Unknown = Inr exact_Unknown"
| "exact_Real x = Inl (HostPanic ExactKindMismatch)"

fun exact_Imag :: "exact_Value \<Rightarrow> error + exact_Value" where
  "exact_Imag (exact_Complex re im) = Inr (exact_Float im)"
| "exact_Imag (exact_Int n) = Inr (exact_Int 0)"
| "exact_Imag (exact_Float q) = Inr (exact_Int 0)"
| "exact_Imag exact_Unknown = Inr exact_Unknown"
| "exact_Imag x = Inl (HostPanic ExactKindMismatch)"

subsection \<open>The machine and the libraries\<close>

text \<open>
  Floating-point arithmetic and conversion on IEEE 754 bit patterns, the assignability
  judgement of go/types and the conversion of reflect are not defined by the engine; they
  are parameters of the model, and every theorem holds for all of them.
\<close>

record host =
  f64_add :: "64 word \<Rightarrow> 64 word \<Rightarrow> 64 word"
  f64_sub :: "64 word \<Rightarrow> 64 word \<Rightarrow> 64 word"
  f64_mul :: "64 word \<Rightarrow> 64 word \<Rightarrow> 64 word"
  f64_quo :: "64 word \<Rightarrow> 64 word \<Rightarrow> 64 word"
  f32_add :: "32 word \<Rightarrow> 32 word \<Rightarrow> 32 word"
  f32_sub :: "32 word \<Rightarrow> 32 word \<Rightarrow> 32 word"
  f32_mul :: "32 word \<Rightarrow> 32 word \<Rightarrow> 32 word"
  f32_quo :: "32 word \<Rightarrow> 32 word \<Rightarrow> 32 word"
  f64_to_f32 :: "64 word \<Rightarrow> 32 word"
  f32_to_f64 :: "32 word \<Rightarrow> 64 word"
  c128_mul :: "64 word \<times> 64 word \<Rightarrow> 64 word \<times> 64 word \<Rightarrow> 64 word \<times> 64 word"
  c128_quo :: "64 word \<times> 64 word \<Rightarrow> 64 word \<times> 64 word \<Rightarrow> 64 word \<times> 64 word"
  c64_mul :: "32 word \<times> 32 word \<Rightarrow> 32 word \<times> 32 word \<Rightarrow> 32 word \<times> 32 word"
  c64_quo :: "32 word \<times> 32 word \<Rightarrow> 32 word \<times> 32 word \<Rightarrow> 32 word \<times> 32 word"
  rat_to_f64 :: "rat \<Rightarrow> 64 word"
  types_AssignableTo :: "gotype \<Rightarrow> gotype \<Rightarrow> bool"
  reflect_Convert :: "rvalue \<Rightarrow> rtype \<Rightarrow> rvalue option"

fun exact_Float64Val :: "host \<Rightarrow> exact_Value \<Rightarrow> error + 64 word" where
  "exact_Float64Val m (exact_Int n) = Inr (rat_to_f64 m (of_int n))"
| "exact_Float64Val m (exact_Float q) = Inr (rat_to_f64 m q)"
| "exact_Float64Val m exact_Unknown = Inr 0"
| "exact_Float64Val m x = Inl (HostPanic ExactKindMismatch)"

subsection \<open>Objects and the type registry\<close>

datatype "value" = Reflect rvalue | Exact exact_Value | NilInterface

record Object =
  Value :: "value"
  Typ :: gotype

text \<open>
  \<open>getReflectType(env.interp.typeMap, t)\<close> is not part of operator.go: the lookup of the
  reflect type of a go/types type in the environment's type map is the environment of the
  model; \<open>None\<close> is the nil result.
\<close>

record environ =
  getReflectType :: "gotype \<Rightarrow> rtype option"

text \<open>The type assertions \<open>v.(reflect.Value)\<close> and \<open>v.(exact.Value)\<close>.\<close>

fun asReflect :: "value \<Rightarrow> error + rvalue" where
  "asReflect (Reflect v) = Inr v"
| "asReflect x = Inl (HostPanic InterfaceConversion)"

fun asExact :: "value \<Rightarrow> error + exact_Value" where
  "asExact (Exact ev) = Inr ev"
| "asExact x = Inl (HostPanic InterfaceConversion)"

fun asBasic :: "gotype \<Rightarrow> error + bkind" where
  "asBasic (Basic k) = Inr k"
| "asBasic t = Inl (HostPanic InterfaceConversion)"

subsection \<open>getTypedObject\<close>

definition getTypedObject :: "host \<Rightarrow> Object \<Rightarrow> error + Object" where
  "getTypedObject m obj =
    (if isTyped (Typ obj) then Inr obj
     else
       bindE (asBasic (Underlying (Typ obj))) (\<lambda>t.
       bindE (asExact (Value obj)) (\<lambda>ev.
         (case t of
            types_UntypedBool \<Rightarrow>
              bindE (exact_BoolVal ev) (\<lambda>b.
                Inr \<lparr>Value = Reflect (RV ''bool'' (VBool b)), Typ = Basic types_Bool\<rparr>)
          | types_UntypedInt \<Rightarrow>
              bindE (exact_Int64Val ev) (\<lambda>i64.
                Inr \<lparr>Value = Reflect (RV ''int'' (VInt i64)), Typ = Basic types_Int\<rparr>)
          | types_UntypedFloat \<Rightarrow>
              bindE (exact_Float64Val m ev) (\<lambda>f64.
                Inr \<lparr>Value = Reflect (RV ''float64'' (VFloat64 f64)),
                     Typ = Basic types_Float64\<rparr>)
          | types_UntypedComplex \<Rightarrow>
              bindE (exact_Real ev) (\<lambda>re.
              bindE (exact_Float64Val m re) (\<lambda>real64.
              bindE (exact_Imag ev) (\<lambda>im.
              bindE (exact_Float64Val m im) (\<lambda>imag64.
                Inr \<lparr>Value = Reflect (RV ''complex128'' (VComplex128 real64 imag64)),
                     Typ = Basic types_Complex128\<rparr>))))
          | types_UntypedRune \<Rightarrow>
              bindE (exact_Int64Val ev) (\<lambda>i64.
                Inr \<lparr>Value = Reflect (RV ''int32'' (VInt32 (ucast i64))),
                     Typ = Basic types_Rune\<rparr>)
          | types_UntypedString \<Rightarrow>
              bindE (exact_StringVal ev) (\<lambda>s.
                Inr \<lparr>Value = Reflect (RV ''string'' (VString s)), Typ = Basic types_String\<rparr>)
          | types_UntypedNil \<Rightarrow> Inl (Fatal ''getTypedObject: Got untyped nil'')
          | _ \<Rightarrow> Inr obj))))"

subsection \<open>Reading and writing a reflect.Value\<close>

text \<open>
  \<open>v.Int()\<close> returns the value as an \<open>int64\<close> and panics unless the kind is one of the
  signed integer kinds; \<open>v.Uint()\<close> likewise for the unsigned kinds, \<open>v.Float()\<close> for the
  float kinds and \<open>v.Complex()\<close> for the complex kinds.
\<close>

fun rv_Int :: "rvalue \<Rightarrow> error + 64 word" where
  "rv_Int (RV n (VInt w)) = Inr w"
| "rv_Int (RV n (VInt8 w)) = Inr (scast w)"
| "rv_Int (RV n (VInt16 w)) = Inr (scast w)"
| "rv_Int (RV n (VInt32 w)) = Inr (scast w)"
| "rv_Int (RV n (VInt64 w)) = Inr w"
| "rv_Int (RV n s) = Inl (HostPanic ReflectValueError)"

fun rv_Uint :: "rvalue \<Rightarrow> error + 64 word" where
  "rv_Uint (RV n (VUint w)) = Inr w"
| "rv_Uint (RV n (VUint8 w)) = Inr (ucast w)"
| "rv_Uint (RV n (VUint16 w)) = Inr (ucast w)"
| "rv_Uint (RV n (VUint32 w)) = Inr (ucast w)"
| "rv_Uint (RV n (VUint64 w)) = Inr w"
| "rv_Uint (RV n (VUintptr w)) = Inr w"
| "rv_Uint (RV n s) = Inl (HostPanic ReflectValueError)"

fun rv_Float :: "host \<Rightarrow> rvalue \<Rightarrow> error + 64 word" where
  "rv_Float m (RV n (VFloat32 w)) = Inr (f32_to_f64 m w)"
| "rv_Float m (RV n (VFloat64 w)) = Inr w"
| "rv_Float m (RV n s) = Inl (HostPanic ReflectValueError)"

fun rv_Complex :: "host \<Rightarrow> rvalue \<Rightarrow> error + 64 word \<times> 64 word" where
  "rv_Complex m (RV n (VComplex64 r i)) = Inr (f32_to_f64 m r, f32_to_f64 m i)"
| "rv_Complex m (RV n (VComplex128 r i)) = Inr (r, i)"
| "rv_Complex m (RV n s) = Inl (HostPanic ReflectValueError)"

text \<open>\<open>v.String()\<close> does not panic: for a kind other than String it names the type.\<close>

fun rv_String :: "rvalue \<Rightarrow> string" where
  "rv_String (RV n (VString s)) = s"
| "rv_String (RV n VInvalid) = ''<invalid Value>''"
| "rv_String (RV n s) = ''<'' @ n @ '' Value>''"

text \<open>\<open>v.IsNil()\<close> panics unless the kind is a reference kind.\<close>

fun rv_IsNil :: "rvalue \<Rightarrow> error + bool" where
  "rv_IsNil (RV n (VPtr p)) = Inr (p = None)"
| "rv_IsNil (RV n (VSlice p)) = Inr (p = None)"
| "rv_IsNil (RV n (VMap p)) = Inr (p = None)"
| "rv_IsNil (RV n (VChan p)) = Inr (p = None)"
| "rv_IsNil (RV n (VFunc p)) = Inr (p = None)"
| "rv_IsNil (RV n s) = Inl (HostPanic ReflectValueError)"

text \<open>
  The setters store into the slot at the width of the slot's own kind, and panic when the
  slot is of another class of kinds.
\<close>

fun rv_SetInt :: "rvalue \<Rightarrow> 64 word \<Rightarrow> error + rvalue" where
  "rv_SetInt (RV n (VInt w)) x = Inr (RV n (VInt x))"
| "rv_SetInt (RV n (VInt8 w)) x = Inr (RV n (VInt8 (ucast x)))"
| "rv_SetInt (RV n (VInt16 w)) x = Inr (RV n (VInt16 (ucast x)))"
| "rv_SetInt (RV n (VInt32 w)) x = Inr (RV n (VInt32 (ucast x)))"
| "rv_SetInt (RV n (VInt64 w)) x = Inr (RV n (VInt64 x))"
| "rv_SetInt (RV n s) x = Inl (HostPanic ReflectValueError)"

fun rv_SetUint :: "rvalue \<Rightarrow> 64 word \<Rightarrow> error + rvalue" where
  "rv_SetUint (RV n (VUint w)) x = Inr (RV n (VUint x))"
| "rv_SetUint (RV n (VUint8 w)) x = Inr (RV n (VUint8 (ucast x)))"
| "rv_SetUint (RV n (VUint16 w)) x = Inr (RV n (VUint16 (ucast x)))"
| "rv_SetUint (RV n (VUint32 w)) x = Inr (RV n (VUint32 (ucast x)))"
| "rv_SetUint (RV n (VUint64 w)) x = Inr (RV n (VUint64 x))"
| "rv_SetUint (RV n (VUintptr w)) x = Inr (RV n (VUintptr x))"
| "rv_SetUint (RV n s) x = Inl (HostPanic ReflectValueError)"

fun rv_SetFloat :: "host \<Rightarrow> rvalue \<Rightarrow> 64 word \<Rightarrow> error + rvalue" where
  "rv_SetFloat m (RV n (VFloat32 w)) x = Inr (RV n (VFloat32 (f64_to_f32 m x)))"
| "rv_SetFloat m (RV n (VFloat64 w)) x = Inr (RV n (VFloat64 x))"
| "rv_SetFloat m (RV n s) x = Inl (HostPanic ReflectValueError)"

fun rv_SetComplex :: "host \<Rightarrow> rvalue \<Rightarrow> 64 word \<times> 64 word \<Rightarrow> error + rvalue" where
  "rv_SetComplex m (RV n (VComplex64 r i)) x =
     Inr (RV n (VComplex64 (f64_to_f32 m (fst x)) (f64_to_f32 m (snd x))))"
| "rv_SetComplex m (RV n (VComplex128 r i)) x = Inr (RV n (VComplex128 (fst x) (snd x)))"
| "rv_SetComplex m (RV n s) x = Inl (HostPanic ReflectValueError)"

fun rv_SetString :: "rvalue \<Rightarrow> string \<Rightarrow> error + rvalue" where
  "rv_SetString (RV n (VString s)) x = Inr (RV n (VString x))"
| "rv_SetString (RV n s) x = Inl (HostPanic ReflectValueError)"

fun rv_SetBool :: "rvalue \<Rightarrow> bool \<Rightarrow> error + rvalue" where
  "rv_SetBool (RV n (VBool b)) x = Inr (RV n (VBool x))"
| "rv_SetBool (RV n s) x = Inl (HostPanic ReflectValueError)"

subsection \<open>Go's conversions and integer operators\<close>

text \<open>
  The conversions \<open>int8(x)\<close>, ..., \<open>uintptr(x)\<close> of a 64-bit value keep its low bits;
  \<open>int64(x)\<close> of a signed value extends its sign and \<open>uint64(x)\<close> of an unsigned value
  extends it with zeros.
\<close>

definition go_int :: "64 word \<Rightarrow> 64 word" where "go_int x = x"
definition go_int8 :: "64 word \<Rightarrow> 8 word" where "go_int8 x = ucast x"
definition go_int16 :: "64 word \<Rightarrow> 16 word" where "go_int16 x = ucast x"
definition go_int32 :: "64 word \<Rightarrow> 32 word" where "go_int32 x = ucast x"
definition go_int64 :: "64 word \<Rightarrow> 64 word" where "go_int64 x = x"
definition go_uint :: "64 word \<Rightarrow> 64 word" where "go_uint x = x"
definition go_uint8 :: "64 word \<Rightarrow> 8 word" where "go_uint8 x = ucast x"
definition go_uint16 :: "64 word \<Rightarrow> 16 word" where "go_uint16 x = ucast x"
definition go_uint32 :: "64 word \<Rightarrow> 32 word" where "go_uint32 x = ucast x"
definition go_uint64 :: "64 word \<Rightarrow> 64 word" where "go_uint64 x = x"
definition go_uintptr :: "64 word \<Rightarrow> 64 word" where "go_uintptr x = x"

definition to_int64 :: "'a::len word \<Rightarrow> 64 word" where "to_int64 x = scast x"
definition to_uint64 :: "'a::len word \<Rightarrow> 64 word" where "to_uint64 x = ucast x"

definition to_complex64 :: "host \<Rightarrow> 64 word \<times> 64 word \<Rightarrow> 32 word \<times> 32 word" where
  "to_complex64 m c = (f64_to_f32 m (fst c), f64_to_f32 m (snd c))"

definition to_complex128 :: "host \<Rightarrow> 32 word \<times> 32 word \<Rightarrow> 64 word \<times> 64 word" where
  "to_complex128 m c = (f32_to_f64 m (fst c), f32_to_f64 m (snd c))"

text \<open>Complex addition and subtraction work on the two parts.\<close>

definition c128_add :: "host \<Rightarrow> 64 word \<times> 64 word \<Rightarrow> 64 word \<times> 64 word \<Rightarrow> 64 word \<times> 64 word" where
  "c128_add m a b = (f64_add m (fst a) (fst b), f64_add m (snd a) (snd b))"

definition c128_sub :: "host \<Rightarrow> 64 word \<times> 64 word \<Rightarrow> 64 word \<times> 64 word \<Rightarrow> 64 word \<times> 64 word" where
  "c128_sub m a b = (f64_sub m (fst a) (fst b), f64_sub m (snd a) (snd b))"

definition c64_add :: "host \<Rightarrow> 32 word \<times> 32 word \<Rightarrow> 32 word \<times> 32 word \<Rightarrow> 32 word \<times> 32 word" where
  "c64_add m a b = (f32_add m (fst a) (fst b), f32_add m (snd a) (snd b))"

definition c64_sub :: "host \<Rightarrow> 32 word \<times> 32 word \<Rightarrow> 32 word \<times> 32 word \<Rightarrow> 32 word \<times> 32 word" where
  "c64_sub m a b = (f32_sub m (fst a) (fst b), f32_sub m (snd a) (snd b))"

text \<open>
  Integer division and remainder: the Go runtime panics on a zero divisor; the signed
  quotient truncates towards zero and wraps at the width of the operands.
\<close>

definition quoS :: "'a::len word \<Rightarrow> 'a word \<Rightarrow> error + 'a word" where
  "quoS a b = (if b = 0 then Inl (HostPanic IntegerDivideByZero)
               else Inr (word_of_int (sint a sdiv sint b)))"

definition remS :: "'a::len word \<Rightarrow> 'a word \<Rightarrow> error + 'a word" where
  "remS a b = (if b = 0 then Inl (HostPanic IntegerDivideByZero)
               else Inr (word_of_int (sint a smod sint b)))"

definition quoU :: "'a::len word \<Rightarrow> 'a word \<Rightarrow> error + 'a word" where
  "quoU a b = (if b = 0 then Inl (HostPanic IntegerDivideByZero) else Inr (a div b))"

definition remU :: "'a::len word \<Rightarrow> 'a word \<Rightarrow> error + 'a word" where
  "remU a b = (if b = 0 then Inl (HostPanic IntegerDivideByZero) else Inr (a mod b))"

text \<open>
  Shifts by an unsigned 64-bit count: a left shift and an unsigned right shift fill with
  zeros, a signed right shift fills with the sign bit.
\<close>

definition shl :: "'a::len word \<Rightarrow> 64 word \<Rightarrow> 'a word" where
  "shl x amt = push_bit (unat amt) x"

definition shrS :: "'a::len word \<Rightarrow> 64 word \<Rightarrow> 'a word" where
  "shrS x amt = signed_drop_bit (unat amt) x"

definition shrU :: "'a::len word \<Rightarrow> 64 word \<Rightarrow> 'a word" where
  "shrU x amt = drop_bit (unat amt) x"

subsection \<open>The arithmetic and bitwise operators\<close>

text \<open>
  Each case of an operator's switch reads both operands with the accessor of the left
  operand's class of kinds.
\<close>

definition ints :: "rvalue \<Rightarrow> rvalue \<Rightarrow> (64 word \<Rightarrow> 64 word \<Rightarrow> error + 'a) \<Rightarrow> error + 'a" where
  "ints lv rv f = bindE (rv_Int lv) (\<lambda>a. bindE (rv_Int rv) (\<lambda>b. f a b))"

definition uints :: "rvalue \<Rightarrow> rvalue \<Rightarrow> (64 word \<Rightarrow> 64 word \<Rightarrow> error + 'a) \<Rightarrow> error + 'a" where
  "uints lv rv f = bindE (rv_Uint lv) (\<lambda>a. bindE (rv_Uint rv) (\<lambda>b. f a b))"

definition floats :: "host \<Rightarrow> rvalue \<Rightarrow> rvalue \<Rightarrow> (64 word \<Rightarrow> 64 word \<Rightarrow> error + 'a) \<Rightarrow> error + 'a" where
  "floats m lv rv f = bindE (rv_Float m lv) (\<lambda>a. bindE (rv_Float m rv) (\<lambda>b. f a b))"

definition complexes :: "host \<Rightarrow> rvalue \<Rightarrow> rvalue \<Rightarrow>
    (64 word \<times> 64 word \<Rightarrow> 64 word \<times> 64 word \<Rightarrow> error + 'a) \<Rightarrow> error + 'a" where
  "complexes m lv rv f = bindE (rv_Complex m lv) (\<lambda>a. bindE (rv_Complex m rv) (\<lambda>b. f a b))"

text \<open>
  The result slot: the reflect type of the result's type is looked up, a missing one is
  fatal, and a settable zero value of it is allocated.
\<close>

definition newValue :: "environ \<Rightarrow> string \<Rightarrow> gotype \<Rightarrow> error + rvalue" where
  "newValue env fname newTyp =
    (case getReflectType env newTyp of
       None \<Rightarrow> Inl (Fatal (fname @ '': Couldn't get reflect.Type from types.Type''))
     | Some newRtyp \<Rightarrow> Inr (getSettableZeroVal newRtyp))"

text \<open>
  The shift count: a \<open>reflect.Value\<close> is taken as it is; otherwise the operand holds an
  \<open>exact.Value\<close>, which is turned into a \<open>uint64\<close>.
\<close>

definition shiftCount :: "Object \<Rightarrow> error + rvalue" where
  "shiftCount right =
    (case Value right of
       Reflect rv \<Rightarrow> Inr rv
     | other \<Rightarrow>
         bindE (asExact other) (\<lambda>ev.
         bindE (exact_Uint64Val ev) (\<lambda>v64. Inr (RV ''uint64'' (VUint64 v64)))))"

text \<open>
  The panic messages of the operators end with the names of the operand types, which the
  model leaves out.
\<close>

text \<open>\<open>operatorAdd\<close> implements the binary operation \<open>+\<close>.\<close>

definition operatorAdd :: "host \<Rightarrow> environ \<Rightarrow> Object \<Rightarrow> Object \<Rightarrow> error + Object" where
  "operatorAdd m env left0 right0 =
    bindE (getTypedObject m left0) (\<lambda>left.
    bindE (getTypedObject m right0) (\<lambda>right.
    bindE (asReflect (Value left)) (\<lambda>lv.
    bindE (asReflect (Value right)) (\<lambda>rv.
    bindE (newValue env ''operatorAdd'' (Typ left)) (\<lambda>newVal.
    bindE (case rv_Kind lv of
          reflect_Int \<Rightarrow> ints lv rv (\<lambda>a b. rv_SetInt newVal (to_int64 (go_int a + go_int b)))
        | reflect_Int8 \<Rightarrow> ints lv rv (\<lambda>a b. rv_SetInt newVal (to_int64 (go_int8 a + go_int8 b)))
        | reflect_Int16 \<Rightarrow> ints lv rv (\<lambda>a b. rv_SetInt newVal (to_int64 (go_int16 a + go_int16 b)))
        | reflect_Int32 \<Rightarrow> ints lv rv (\<lambda>a b. rv_SetInt newVal (to_int64 (go_int32 a + go_int32 b)))
        | reflect_Int64 \<Rightarrow> ints lv rv (\<lambda>a b. rv_SetInt newVal (to_int64 (go_int64 a + go_int64 b)))
        | reflect_Uint \<Rightarrow> uints lv rv (\<lambda>a b. rv_SetUint newVal (to_uint64 (go_uint a + go_uint b)))
        | reflect_Uint8 \<Rightarrow> uints lv rv (\<lambda>a b. rv_SetUint newVal (to_uint64 (go_uint8 a + go_uint8 b)))
        | reflect_Uint16 \<Rightarrow> uints lv rv (\<lambda>a b. rv_SetUint newVal (to_uint64 (go_uint16 a + go_uint16 b)))
        | reflect_Uint32 \<Rightarrow> uints lv rv (\<lambda>a b. rv_SetUint newVal (to_uint64 (go_uint32 a + go_uint32 b)))
        | reflect_Uint64 \<Rightarrow> uints lv rv (\<lambda>a b. rv_SetUint newVal (to_uint64 (go_uint64 a + go_uint64 b)))
        | reflect_Uintptr \<Rightarrow> uints lv rv (\<lambda>a b. rv_SetUint newVal (to_uint64 (go_uintptr a + go_uintptr b)))
        | reflect_Float32 \<Rightarrow> floats m lv rv (\<lambda>a b. rv_SetFloat m newVal (f32_to_f64 m (f32_add m (f64_to_f32 m a) (f64_to_f32 m b))))
        | reflect_Float64 \<Rightarrow> floats m lv rv (\<lambda>a b. rv_SetFloat m newVal (f64_add m a b))
        | reflect_Complex64 \<Rightarrow> complexes m lv rv (\<lambda>a b. rv_SetComplex m newVal (to_complex128 m (c64_add m (to_complex64 m a) (to_complex64 m b))))
        | reflect_Complex128 \<Rightarrow> complexes m lv rv (\<lambda>a b. rv_SetComplex m newVal (c128_add m a b))
        | reflect_String \<Rightarrow> rv_SetString newVal (rv_String lv @ rv_String rv)
        | _ \<Rightarrow> Inl (Panic ''Type error: Invalid operands to addition'')) (\<lambda>res.
      Inr \<lparr>Value = Reflect res, Typ = Typ left\<rparr>))))))"

text \<open>\<open>operatorSubtract\<close> implements the binary operation \<open>-\<close>.\<close>

definition operatorSubtract :: "host \<Rightarrow> environ \<Rightarrow> Object \<Rightarrow> Object \<Rightarrow> error + Object" where
  "operatorSubtract m env left0 right0 =
    bindE (getTypedObject m left0) (\<lambda>left.
    bindE (getTypedObject m right0) (\<lambda>right.
    bindE (asReflect (Value left)) (\<lambda>lv.
    bindE (asReflect (Value right)) (\<lambda>rv.
    bindE (newValue env ''operatorSubtract'' (Typ left)) (\<lambda>newVal.
    bindE (case rv_Kind lv of
          reflect_Int \<Rightarrow> ints lv rv (\<lambda>a b. rv_SetInt newVal (to_int64 (go_int a - go_int b)))
        | reflect_Int8 \<Rightarrow> ints lv rv (\<lambda>a b. rv_SetInt newVal (to_int64 (go_int8 a - go_int8 b)))
        | reflect_Int16 \<Rightarrow> ints lv rv (\<lambda>a b. rv_SetInt newVal (to_int64 (go_int16 a - go_int16 b)))
        | reflect_Int32 \<Rightarrow> ints lv rv (\<lambda>a b. rv_SetInt newVal (to_int64 (go_int32 a - go_int32 b)))
        | reflect_Int64 \<Rightarrow> ints lv rv (\<lambda>a b. rv_SetInt newVal (to_int64 (go_int64 a - go_int64 b)))
        | reflect_Uint \<Rightarrow> uints lv rv (\<lambda>a b. rv_SetUint newVal (to_uint64 (go_uint a - go_uint b)))
        | reflect_Uint8 \<Rightarrow> uints lv rv (\<lambda>a b. rv_SetUint newVal (to_uint64 (go_uint8 a - go_uint8 b)))
        | reflect_Uint16 \<Rightarrow> uints lv rv (\<lambda>a b. rv_SetUint newVal (to_uint64 (go_uint16 a - go_uint16 b)))
        | reflect_Uint32 \<Rightarrow> uints lv rv (\<lambda>a b. rv_SetUint newVal (to_uint64 (go_uint32 a - go_uint32 b)))
        | reflect_Uint64 \<Rightarrow> uints lv rv (\<lambda>a b. rv_SetUint newVal (to_uint64 (go_uint64 a - go_uint64 b)))
        | reflect_Uintptr \<Rightarrow> uints lv rv (\<lambda>a b. rv_SetUint newVal (to_uint64 (go_uintptr a - go_uintptr b)))
        | reflect_Float32 \<Rightarrow> floats m lv rv (\<lambda>a b. rv_SetFloat m newVal (f32_to_f64 m (f32_sub m (f64_to_f32 m a) (f64_to_f32 m b))))
        | reflect_Float64 \<Rightarrow> floats m lv rv (\<lambda>a b. rv_SetFloat m newVal (f64_sub m a b))
        | reflect_Complex64 \<Rightarrow> complexes m lv rv (\<lambda>a b. rv_SetComplex m newVal (to_complex128 m (c64_sub m (to_complex64 m a) (to_complex64 m b))))
        | reflect_Complex128 \<Rightarrow> complexes m lv rv (\<lambda>a b. rv_SetComplex m newVal (c128_sub m a b))
        | _ \<Rightarrow> Inl (Panic ''Type error: Invalid operands to subtraction'')) (\<lambda>res.
      Inr \<lparr>Value = Reflect res, Typ = Typ left\<rparr>))))))"

text \<open>\<open>operatorMultiply\<close> implements the binary operation \<open>*\<close>.\<close>

definition operatorMultiply :: "host \<Rightarrow> environ \<Rightarrow> Object \<Rightarrow> Object \<Rightarrow> error + Object" where
  "operatorMultiply m env left0 right0 =
    bindE (getTypedObject m left0) (\<lambda>left.
    bindE (getTypedObject m right0) (\<lambda>right.
    bindE (asReflect (Value left)) (\<lambda>lv.
    bindE (asReflect (Value right)) (\<lambda>rv.
    bindE (newValue env ''operatorMultiply'' (Typ left)) (\<lambda>newVal.
    bindE (case rv_Kind lv of
          reflect_Int \<Rightarrow> ints lv rv (\<lambda>a b. rv_SetInt newVal (to_int64 (go_int a * go_int b)))
        | reflect_Int8 \<Rightarrow> ints lv rv (\<lambda>a b. rv_SetInt newVal (to_int64 (go_int8 a * go_int8 b)))
        | reflect_Int16 \<Rightarrow> ints lv rv (\<lambda>a b. rv_SetInt newVal (to_int64 (go_int16 a * go_int16 b)))
        | reflect_Int32 \<Rightarrow> ints lv rv (\<lambda>a b. rv_SetInt newVal (to_int64 (go_int32 a * go_int32 b)))
        | reflect_Int64 \<Rightarrow> ints lv rv (\<lambda>a b. rv_SetInt newVal (to_int64 (go_int64 a * go_int64 b)))
        | reflect_Uint \<Rightarrow> uints lv rv (\<lambda>a b. rv_SetUint newVal (to_uint64 (go_uint a * go_uint b)))
        | reflect_Uint8 \<Rightarrow> uints lv rv (\<lambda>a b. rv_SetUint newVal (to_uint64 (go_uint8 a * go_uint8 b)))
        | reflect_Uint16 \<Rightarrow> uints lv rv (\<lambda>a b. rv_SetUint newVal (to_uint64 (go_uint16 a * go_uint16 b)))
        | reflect_Uint32 \<Rightarrow> uints lv rv (\<lambda>a b. rv_SetUint newVal (to_uint64 (go_uint32 a * go_uint32 b)))
        | reflect_Uint64 \<Rightarrow> uints lv rv (\<lambda>a b. rv_SetUint newVal (to_uint64 (go_uint64 a * go_uint64 b)))
        | reflect_Uintptr \<Rightarrow> uints lv rv (\<lambda>a b. rv_SetUint newVal (to_uint64 (go_uintptr a * go_uintptr b)))
        | reflect_Float32 \<Rightarrow> floats m lv rv (\<lambda>a b. rv_SetFloat m newVal (f32_to_f64 m (f32_mul m (f64_to_f32 m a) (f64_to_f32 m b))))
        | reflect_Float64 \<Rightarrow> floats m lv rv (\<lambda>a b. rv_SetFloat m newVal (f64_mul m a b))
        | reflect_Complex64 \<Rightarrow> complexes m lv rv (\<lambda>a b. rv_SetComplex m newVal (to_complex128 m (c64_mul m (to_complex64 m a) (to_complex64 m b))))
        | reflect_Complex128 \<Rightarrow> complexes m lv rv (\<lambda>a b. rv_SetComplex m newVal (c128_mul m a b))
        | _ \<Rightarrow> Inl (Panic ''Type error: Invalid operands to multiplication'')) (\<lambda>res.
      Inr \<lparr>Value = Reflect res, Typ = Typ left\<rparr>))))))"

text \<open>\<open>operatorQuotient\<close> implements the binary operation \<open>/\<close>.\<close>

definition operatorQuotient :: "host \<Rightarrow> environ \<Rightarrow> Object \<Rightarrow> Object \<Rightarrow> error + Object" where
  "operatorQuotient m env left0 right0 =
    bindE (getTypedObject m left0) (\<lambda>left.
    bindE (getTypedObject m right0) (\<lambda>right.
    bindE (asReflect (Value left)) (\<lambda>lv.
    bindE (asReflect (Value right)) (\<lambda>rv.
    bindE (newValue env ''operatorQuotient'' (Typ left)) (\<lambda>newVal.
    bindE (case rv_Kind lv of
          reflect_Int \<Rightarrow> ints lv rv (\<lambda>a b. bindE (quoS (go_int a) (go_int b)) (\<lambda>quot. rv_SetInt newVal (to_int64 quot)))
        | reflect_Int8 \<Rightarrow> ints lv rv (\<lambda>a b. bindE (quoS (go_int8 a) (go_int8 b)) (\<lambda>quot. rv_SetInt newVal (to_int64 quot)))
        | reflect_Int16 \<Rightarrow> ints lv rv (\<lambda>a b. bindE (quoS (go_int16 a) (go_int16 b)) (\<lambda>quot. rv_SetInt newVal (to_int64 quot)))
        | reflect_Int32 \<Rightarrow> ints lv rv (\<lambda>a b. bindE (quoS (go_int32 a) (go_int32 b)) (\<lambda>quot. rv_SetInt newVal (to_int64 quot)))
        | reflect_Int64 \<Rightarrow> ints lv rv (\<lambda>a b. bindE (quoS (go_int64 a) (go_int64 b)) (\<lambda>quot. rv_SetInt newVal (to_int64 quot)))
        | reflect_Uint \<Rightarrow> uints lv rv (\<lambda>a b. bindE (quoU (go_uint a) (go_uint b)) (\<lambda>quot. rv_SetUint newVal (to_uint64 quot)))
        | reflect_Uint8 \<Rightarrow> uints lv rv (\<lambda>a b. bindE (quoU (go_uint8 a) (go_uint8 b)) (\<lambda>quot. rv_SetUint newVal (to_uint64 quot)))
        | reflect_Uint16 \<Rightarrow> uints lv rv (\<lambda>a b. bindE (quoU (go_uint16 a) (go_uint16 b)) (\<lambda>quot. rv_SetUint newVal (to_uint64 quot)))
        | reflect_Uint32 \<Rightarrow> uints lv rv (\<lambda>a b. bindE (quoU (go_uint32 a) (go_uint32 b)) (\<lambda>quot. rv_SetUint newVal (to_uint64 quot)))
        | reflect_Uint64 \<Rightarrow> uints lv rv (\<lambda>a b. bindE (quoU (go_uint64 a) (go_uint64 b)) (\<lambda>quot. rv_SetUint newVal (to_uint64 quot)))
        | reflect_Uintptr \<Rightarrow> uints lv rv (\<lambda>a b. bindE (quoU (go_uintptr a) (go_uintptr b)) (\<lambda>quot. rv_SetUint newVal (to_uint64 quot)))
        | reflect_Float32 \<Rightarrow> floats m lv rv (\<lambda>a b. rv_SetFloat m newVal (f32_to_f64 m (f32_quo m (f64_to_f32 m a) (f64_to_f32 m b))))
        | reflect_Float64 \<Rightarrow> floats m lv rv (\<lambda>a b. rv_SetFloat m newVal (f64_quo m a b))
        | reflect_Complex64 \<Rightarrow> complexes m lv rv (\<lambda>a b. rv_SetComplex m newVal (to_complex128 m (c64_quo m (to_complex64 m a) (to_complex64 m b))))
        | reflect_Complex128 \<Rightarrow> complexes m lv rv (\<lambda>a b. rv_SetComplex m newVal (c128_quo m a b))
        | _ \<Rightarrow> Inl (Panic ''Type error: Invalid operands to division'')) (\<lambda>res.
      Inr \<lparr>Value = Reflect res, Typ = Typ left\<rparr>))))))"

text \<open>\<open>operatorRemainder\<close> implements the binary operation \<open>%\<close>.\<close>

definition operatorRemainder :: "host \<Rightarrow> environ \<Rightarrow> Object \<Rightarrow> Object \<Rightarrow> error + Object" where
  "operatorRemainder m env left0 right0 =
    bindE (getTypedObject m left0) (\<lambda>left.
    bindE (getTypedObject m right0) (\<lambda>right.
    bindE (asReflect (Value left)) (\<lambda>lv.
    bindE (asReflect (Value right)) (\<lambda>rv.
    bindE (newValue env ''operatorRemainder'' (Typ left)) (\<lambda>newVal.
    bindE (case rv_Kind lv of
          reflect_Int \<Rightarrow> ints lv rv (\<lambda>a b. bindE (remS (go_int a) (go_int b)) (\<lambda>rem. rv_SetInt newVal (to_int64 rem)))
        | reflect_Int8 \<Rightarrow> ints lv rv (\<lambda>a b. bindE (remS (go_int8 a) (go_int8 b)) (\<lambda>rem. rv_SetInt newVal (to_int64 rem)))
        | reflect_Int16 \<Rightarrow> ints lv rv (\<lambda>a b. bindE (remS (go_int16 a) (go_int16 b)) (\<lambda>rem. rv_SetInt newVal (to_int64 rem)))
        | reflect_Int32 \<Rightarrow> ints lv rv (\<lambda>a b. bindE (remS (go_int32 a) (go_int32 b)) (\<lambda>rem. rv_SetInt newVal (to_int64 rem)))
        | reflect_Int64 \<Rightarrow> ints lv rv (\<lambda>a b. bindE (remS (go_int64 a) (go_int64 b)) (\<lambda>rem. rv_SetInt newVal (to_int64 rem)))
        | reflect_Uint \<Rightarrow> uints lv rv (\<lambda>a b. bindE (remU (go_uint a) (go_uint b)) (\<lambda>rem. rv_SetUint newVal (to_uint64 rem)))
        | reflect_Uint8 \<Rightarrow> uints lv rv (\<lambda>a b. bindE (remU (go_uint8 a) (go_uint8 b)) (\<lambda>rem. rv_SetUint newVal (to_uint64 rem)))
        | reflect_Uint16 \<Rightarrow> uints lv rv (\<lambda>a b. bindE (remU (go_uint16 a) (go_uint16 b)) (\<lambda>rem. rv_SetUint newVal (to_uint64 rem)))
        | reflect_Uint32 \<Rightarrow> uints lv rv (\<lambda>a b. bindE (remU (go_uint32 a) (go_uint32 b)) (\<lambda>rem. rv_SetUint newVal (to_uint64 rem)))
        | reflect_Uint64 \<Rightarrow> uints lv rv (\<lambda>a b. bindE (remU (go_uint64 a) (go_uint64 b)) (\<lambda>rem. rv_SetUint newVal (to_uint64 rem)))
        | reflect_Uintptr \<Rightarrow> uints lv rv (\<lambda>a b. bindE (remU (go_uintptr a) (go_uintptr b)) (\<lambda>rem. rv_SetUint newVal (to_uint64 rem)))
        | _ \<Rightarrow> Inl (Panic ''Type error: Invalid operands to '%' operator'')) (\<lambda>res.
      Inr \<lparr>Value = Reflect res, Typ = Typ left\<rparr>))))))"

text \<open>\<open>operatorAnd\<close> implements the binary operation \<open>&\<close>.\<close>

definition operatorAnd :: "host \<Rightarrow> environ \<Rightarrow> Object \<Rightarrow> Object \<Rightarrow> error + Object" where
  "operatorAnd m env left0 right0 =
    bindE (getTypedObject m left0) (\<lambda>left.
    bindE (getTypedObject m right0) (\<lambda>right.
    bindE (asReflect (Value left)) (\<lambda>lv.
    bindE (asReflect (Value right)) (\<lambda>rv.
    bindE (newValue env ''operatorAnd'' (Typ left)) (\<lambda>newVal.
    bindE (case rv_Kind lv of
          reflect_Int \<Rightarrow> ints lv rv (\<lambda>a b. rv_SetInt newVal (to_int64 (go_int a AND go_int b)))
        | reflect_Int8 \<Rightarrow> ints lv rv (\<lambda>a b. rv_SetInt newVal (to_int64 (go_int8 a AND go_int8 b)))
        | reflect_Int16 \<Rightarrow> ints lv rv (\<lambda>a b. rv_SetInt newVal (to_int64 (go_int16 a AND go_int16 b)))
        | reflect_Int32 \<Rightarrow> ints lv rv (\<lambda>a b. rv_SetInt newVal (to_int64 (go_int32 a AND go_int32 b)))
        | reflect_Int64 \<Rightarrow> ints lv rv (\<lambda>a b. rv_SetInt newVal (to_int64 (go_int64 a AND go_int64 b)))
        | reflect_Uint \<Rightarrow> uints lv rv (\<lambda>a b. rv_SetUint newVal (to_uint64 (go_uint a AND go_uint b)))
        | reflect_Uint8 \<Rightarrow> uints lv rv (\<lambda>a b. rv_SetUint newVal (to_uint64 (go_uint8 a AND go_uint8 b)))
        | reflect_Uint16 \<Rightarrow> uints lv rv (\<lambda>a b. rv_SetUint newVal (to_uint64 (go_uint16 a AND go_uint16 b)))
        | reflect_Uint32 \<Rightarrow> uints lv rv (\<lambda>a b. rv_SetUint newVal (to_uint64 (go_uint32 a AND go_uint32 b)))
        | reflect_Uint64 \<Rightarrow> uints lv rv (\<lambda>a b. rv_SetUint newVal (to_uint64 (go_uint64 a AND go_uint64 b)))
        | reflect_Uintptr \<Rightarrow> uints lv rv (\<lambda>a b. rv_SetUint newVal (to_uint64 (go_uintptr a AND go_uintptr b)))
        | _ \<Rightarrow> Inl (Panic ''Type error: Invalid operands to '&' operator'')) (\<lambda>res.
      Inr \<lparr>Value = Reflect res, Typ = Typ left\<rparr>))))))"

text \<open>\<open>operatorOr\<close> implements the binary operation \<open>|\<close>.\<close>

definition operatorOr :: "host \<Rightarrow> environ \<Rightarrow> Object \<Rightarrow> Object \<Rightarrow> error + Object" where
  "operatorOr m env left0 right0 =
    bindE (getTypedObject m left0) (\<lambda>left.
    bindE (getTypedObject m right0) (\<lambda>right.
    bindE (asReflect (Value left)) (\<lambda>lv.
    bindE (asReflect (Value right)) (\<lambda>rv.
    bindE (newValue env ''operatorOr'' (Typ left)) (\<lambda>newVal.
    bindE (case rv_Kind lv of
          reflect_Int \<Rightarrow> ints lv rv (\<lambda>a b. rv_SetInt newVal (to_int64 (go_int a OR go_int b)))
        | reflect_Int8 \<Rightarrow> ints lv rv (\<lambda>a b. rv_SetInt newVal (to_int64 (go_int8 a OR go_int8 b)))
        | reflect_Int16 \<Rightarrow> ints lv rv (\<lambda>a b. rv_SetInt newVal (to_int64 (go_int16 a OR go_int16 b)))
        | reflect_Int32 \<Rightarrow> ints lv rv (\<lambda>a b. rv_SetInt newVal (to_int64 (go_int32 a OR go_int32 b)))
        | reflect_Int64 \<Rightarrow> ints lv rv (\<lambda>a b. rv_SetInt newVal (to_int64 (go_int64 a OR go_int64 b)))
        | reflect_Uint \<Rightarrow> uints lv rv (\<lambda>a b. rv_SetUint newVal (to_uint64 (go_uint a OR go_uint b)))
        | reflect_Uint8 \<Rightarrow> uints lv rv (\<lambda>a b. rv_SetUint newVal (to_uint64 (go_uint8 a OR go_uint8 b)))
        | reflect_Uint16 \<Rightarrow> uints lv rv (\<lambda>a b. rv_SetUint newVal (to_uint64 (go_uint16 a OR go_uint16 b)))
        | reflect_Uint32 \<Rightarrow> uints lv rv (\<lambda>a b. rv_SetUint newVal (to_uint64 (go_uint32 a OR go_uint32 b)))
        | reflect_Uint64 \<Rightarrow> uints lv rv (\<lambda>a b. rv_SetUint newVal (to_uint64 (go_uint64 a OR go_uint64 b)))
        | reflect_Uintptr \<Rightarrow> uints lv rv (\<lambda>a b. rv_SetUint newVal (to_uint64 (go_uintptr a OR go_uintptr b)))
        | _ \<Rightarrow> Inl (Panic ''Type error: Invalid operands to '|' operator'')) (\<lambda>res.
      Inr \<lparr>Value = Reflect res, Typ = Typ left\<rparr>))))))"

text \<open>\<open>operatorXor\<close> implements the binary operation \<open>^\<close>.\<close>

definition operatorXor :: "host \<Rightarrow> environ \<Rightarrow> Object \<Rightarrow> Object \<Rightarrow> error + Object" where
  "operatorXor m env left0 right0 =
    bindE (getTypedObject m left0) (\<lambda>left.
    bindE (getTypedObject m right0) (\<lambda>right.
    bindE (asReflect (Value left)) (\<lambda>lv.
    bindE (asReflect (Value right)) (\<lambda>rv.
    bindE (newValue env ''operatorXor'' (Typ left)) (\<lambda>newVal.
    bindE (case rv_Kind lv of
          reflect_Int \<Rightarrow> ints lv rv (\<lambda>a b. rv_SetInt newVal (to_int64 (go_int a XOR go_int b)))
        | reflect_Int8 \<Rightarrow> ints lv rv (\<lambda>a b. rv_SetInt newVal (to_int64 (go_int8 a XOR go_int8 b)))
        | reflect_Int16 \<Rightarrow> ints lv rv (\<lambda>a b. rv_SetInt newVal (to_int64 (go_int16 a XOR go_int16 b)))
        | reflect_Int32 \<Rightarrow> ints lv rv (\<lambda>a b. rv_SetInt newVal (to_int64 (go_int32 a XOR go_int32 b)))
        | reflect_Int64 \<Rightarrow> ints lv rv (\<lambda>a b. rv_SetInt newVal (to_int64 (go_int64 a XOR go_int64 b)))
        | reflect_Uint \<Rightarrow> uints lv rv (\<lambda>a b. rv_SetUint newVal (to_uint64 (go_uint a XOR go_uint b)))
        | reflect_Uint8 \<Rightarrow> uints lv rv (\<lambda>a b. rv_SetUint newVal (to_uint64 (go_uint8 a XOR go_uint8 b)))
        | reflect_Uint16 \<Rightarrow> uints lv rv (\<lambda>a b. rv_SetUint newVal (to_uint64 (go_uint16 a XOR go_uint16 b)))
        | reflect_Uint32 \<Rightarrow> uints lv rv (\<lambda>a b. rv_SetUint newVal (to_uint64 (go_uint32 a XOR go_uint32 b)))
        | reflect_Uint64 \<Rightarrow> uints lv rv (\<lambda>a b. rv_SetUint newVal (to_uint64 (go_uint64 a XOR go_uint64 b)))
        | reflect_Uintptr \<Rightarrow> uints lv rv (\<lambda>a b. rv_SetUint newVal (to_uint64 (go_uintptr a XOR go_uintptr b)))
        | _ \<Rightarrow> Inl (Panic ''Type error: Invalid operands to '^' operator'')) (\<lambda>res.
      Inr \<lparr>Value = Reflect res, Typ = Typ left\<rparr>))))))"

text \<open>\<open>operatorAndNot\<close> implements the binary operation \<open>&^\<close>.\<close>

definition operatorAndNot :: "host \<Rightarrow> environ \<Rightarrow> Object \<Rightarrow> Object \<Rightarrow> error + Object" where
  "operatorAndNot m env left0 right0 =
    bindE (getTypedObject m left0) (\<lambda>left.
    bindE (getTypedObject m right0) (\<lambda>right.
    bindE (asReflect (Value left)) (\<lambda>lv.
    bindE (asReflect (Value right)) (\<lambda>rv.
    bindE (newValue env ''operatorAndNot'' (Typ left)) (\<lambda>newVal.
    bindE (case rv_Kind lv of
          reflect_Int \<Rightarrow> ints lv rv (\<lambda>a b. rv_SetInt newVal (to_int64 (go_int a AND NOT (go_int b))))
        | reflect_Int8 \<Rightarrow> ints lv rv (\<lambda>a b. rv_SetInt newVal (to_int64 (go_int8 a AND NOT (go_int8 b))))
        | reflect_Int16 \<Rightarrow> ints lv rv (\<lambda>a b. rv_SetInt newVal (to_int64 (go_int16 a AND NOT (go_int16 b))))
        | reflect_Int32 \<Rightarrow> ints lv rv (\<lambda>a b. rv_SetInt newVal (to_int64 (go_int32 a AND NOT (go_int32 b))))
        | reflect_Int64 \<Rightarrow> ints lv rv (\<lambda>a b. rv_SetInt newVal (to_int64 (go_int64 a AND NOT (go_int64 b))))
        | reflect_Uint \<Rightarrow> uints lv rv (\<lambda>a b. rv_SetUint newVal (to_uint64 (go_uint a AND NOT (go_uint b))))
        | reflect_Uint8 \<Rightarrow> uints lv rv (\<lambda>a b. rv_SetUint newVal (to_uint64 (go_uint8 a AND NOT (go_uint8 b))))
        | reflect_Uint16 \<Rightarrow> uints lv rv (\<lambda>a b. rv_SetUint newVal (to_uint64 (go_uint16 a AND NOT (go_uint16 b))))
        | reflect_Uint32 \<Rightarrow> uints lv rv (\<lambda>a b. rv_SetUint newVal (to_uint64 (go_uint32 a AND NOT (go_uint32 b))))
        | reflect_Uint64 \<Rightarrow> uints lv rv (\<lambda>a b. rv_SetUint newVal (to_uint64 (go_uint64 a AND NOT (go_uint64 b))))
        | reflect_Uintptr \<Rightarrow> uints lv rv (\<lambda>a b. rv_SetUint newVal (to_uint64 (go_uintptr a AND NOT (go_uintptr b))))
        | _ \<Rightarrow> Inl (Panic ''Type error: Invalid operands to '&^' operator'')) (\<lambda>res.
      Inr \<lparr>Value = Reflect res, Typ = Typ left\<rparr>))))))"

text \<open>\<open>operatorShiftRight\<close> implements the binary operation \<open>>>\<close>.\<close>

definition operatorShiftRight :: "host \<Rightarrow> environ \<Rightarrow> Object \<Rightarrow> Object \<Rightarrow> error + Object" where
  "operatorShiftRight m env left0 right =
    bindE (getTypedObject m left0) (\<lambda>left.
    bindE (asReflect (Value left)) (\<lambda>lv.
    bindE (shiftCount right) (\<lambda>rv.
    bindE (rv_Uint rv) (\<lambda>amt.
    bindE (newValue env ''operatorShiftRight'' (Typ left)) (\<lambda>newVal.
    bindE (case rv_Kind lv of
          reflect_Int \<Rightarrow> bindE (rv_Int lv) (\<lambda>a. rv_SetInt newVal (to_int64 (shrS (go_int a) amt)))
        | reflect_Int8 \<Rightarrow> bindE (rv_Int lv) (\<lambda>a. rv_SetInt newVal (to_int64 (shrS (go_int8 a) amt)))
        | reflect_Int16 \<Rightarrow> bindE (rv_Int lv) (\<lambda>a. rv_SetInt newVal (to_int64 (shrS (go_int16 a) amt)))
        | reflect_Int32 \<Rightarrow> bindE (rv_Int lv) (\<lambda>a. rv_SetInt newVal (to_int64 (shrS (go_int32 a) amt)))
        | reflect_Int64 \<Rightarrow> bindE (rv_Int lv) (\<lambda>a. rv_SetInt newVal (to_int64 (shrS (go_int64 a) amt)))
        | reflect_Uint \<Rightarrow> bindE (rv_Uint lv) (\<lambda>a. rv_SetUint newVal (to_uint64 (shrU (go_uint a) amt)))
        | reflect_Uint8 \<Rightarrow> bindE (rv_Uint lv) (\<lambda>a. rv_SetUint newVal (to_uint64 (shrU (go_uint8 a) amt)))
        | reflect_Uint16 \<Rightarrow> bindE (rv_Uint lv) (\<lambda>a. rv_SetUint newVal (to_uint64 (shrU (go_uint16 a) amt)))
        | reflect_Uint32 \<Rightarrow> bindE (rv_Uint lv) (\<lambda>a. rv_SetUint newVal (to_uint64 (shrU (go_uint32 a) amt)))
        | reflect_Uint64 \<Rightarrow> bindE (rv_Uint lv) (\<lambda>a. rv_SetUint newVal (to_uint64 (shrU (go_uint64 a) amt)))
        | reflect_Uintptr \<Rightarrow> bindE (rv_Uint lv) (\<lambda>a. rv_SetUint newVal (to_uint64 (shrU (go_uintptr a) amt)))
        | _ \<Rightarrow> Inl (Panic ''Type error: Invalid operands to shift'')) (\<lambda>res.
      Inr \<lparr>Value = Reflect res, Typ = Typ left\<rparr>))))))"

text \<open>\<open>operatorShiftLeft\<close> implements the binary operation \<open><<\<close>. Its switch has no case for \<open>reflect.Uint64\<close>.\<close>

definition operatorShiftLeft :: "host \<Rightarrow> environ \<Rightarrow> Object \<Rightarrow> Object \<Rightarrow> error + Object" where
  "operatorShiftLeft m env left0 right =
    bindE (getTypedObject m left0) (\<lambda>left.
    bindE (asReflect (Value left)) (\<lambda>lv.
    bindE (shiftCount right) (\<lambda>rv.
    bindE (rv_Uint rv) (\<lambda>amt.
    bindE (newValue env ''operatorShiftLeft'' (Typ left)) (\<lambda>newVal.
    bindE (case rv_Kind lv of
          reflect_Int \<Rightarrow> bindE (rv_Int lv) (\<lambda>a. rv_SetInt newVal (to_int64 (shl (go_int a) amt)))
        | reflect_Int8 \<Rightarrow> bindE (rv_Int lv) (\<lambda>a. rv_SetInt newVal (to_int64 (shl (go_int8 a) amt)))
        | reflect_Int16 \<Rightarrow> bindE (rv_Int lv) (\<lambda>a. rv_SetInt newVal (to_int64 (shl (go_int16 a) amt)))
        | reflect_Int32 \<Rightarrow> bindE (rv_Int lv) (\<lambda>a. rv_SetInt newVal (to_int64 (shl (go_int32 a) amt)))
        | reflect_Int64 \<Rightarrow> bindE (rv_Int lv) (\<lambda>a. rv_SetInt newVal (to_int64 (shl (go_int64 a) amt)))
        | reflect_Uint \<Rightarrow> bindE (rv_Uint lv) (\<lambda>a. rv_SetUint newVal (to_uint64 (shl (go_uint a) amt)))
        | reflect_Uint8 \<Rightarrow> bindE (rv_Uint lv) (\<lambda>a. rv_SetUint newVal (to_uint64 (shl (go_uint8 a) amt)))
        | reflect_Uint16 \<Rightarrow> bindE (rv_Uint lv) (\<lambda>a. rv_SetUint newVal (to_uint64 (shl (go_uint16 a) amt)))
        | reflect_Uint32 \<Rightarrow> bindE (rv_Uint lv) (\<lambda>a. rv_SetUint newVal (to_uint64 (shl (go_uint32 a) amt)))
        | reflect_Uintptr \<Rightarrow> bindE (rv_Uint lv) (\<lambda>a. rv_SetUint newVal (to_uint64 (shl (go_uintptr a) amt)))
        | _ \<Rightarrow> Inl (Panic ''Type error: Invalid operands to shift'')) (\<lambda>res.
      Inr \<lparr>Value = Reflect res, Typ = Typ left\<rparr>))))))"

subsection \<open>Comparing values\<close>

text \<open>
  IEEE 754 comparison on bit patterns. A pattern is a NaN when its magnitude lies above
  the pattern of infinity; the other patterns are ordered by sign and magnitude, the two
  zeros being equal. A NaN is neither less than, nor equal to, any value.
\<close>

definition f64_isNaN :: "64 word \<Rightarrow> bool" where
  "f64_isNaN w = (0x7FF0000000000000 < take_bit 63 w)"

definition f64_key :: "64 word \<Rightarrow> int" where
  "f64_key w = (if bit w 63 then - uint (take_bit 63 w) else uint (take_bit 63 w))"

definition f64_lt :: "64 word \<Rightarrow> 64 word \<Rightarrow> bool" where
  "f64_lt a b = (\<not> f64_isNaN a \<and> \<not> f64_isNaN b \<and> f64_key a < f64_key b)"

definition f64_le :: "64 word \<Rightarrow> 64 word \<Rightarrow> bool" where
  "f64_le a b = (\<not> f64_isNaN a \<and> \<not> f64_isNaN b \<and> f64_key a \<le> f64_key b)"

definition f64_eq :: "64 word \<Rightarrow> 64 word \<Rightarrow> bool" where
  "f64_eq a b = (\<not> f64_isNaN a \<and> \<not> f64_isNaN b \<and> f64_key a = f64_key b)"

definition f32_isNaN :: "32 word \<Rightarrow> bool" where
  "f32_isNaN w = (0x7F800000 < take_bit 31 w)"

definition f32_key :: "32 word \<Rightarrow> int" where
  "f32_key w = (if bit w 31 then - uint (take_bit 31 w) else uint (take_bit 31 w))"

definition f32_eq :: "32 word \<Rightarrow> 32 word \<Rightarrow> bool" where
  "f32_eq a b = (\<not> f32_isNaN a \<and> \<not> f32_isNaN b \<and> f32_key a = f32_key b)"

definition signedKinds :: "rkind list" where
  "signedKinds = [reflect_Int, reflect_Int8, reflect_Int16, reflect_Int32, reflect_Int64]"

definition unsignedKinds :: "rkind list" where
  "unsignedKinds = [reflect_Uint, reflect_Uint8, reflect_Uint16, reflect_Uint32,
                    reflect_Uint64, reflect_Uintptr]"

definition floatKinds :: "rkind list" where
  "floatKinds = [reflect_Float32, reflect_Float64]"

text \<open>
  \<open>lv.Interface() == rv.Interface()\<close>: \<open>Interface\<close> panics on the zero Value; two
  interface values of different dynamic types are unequal; for equal dynamic types the
  values are compared, floats and complex numbers by IEEE equality, and the comparison
  panics when the type is not comparable (slices, maps, functions).
\<close>

definition storageEq :: "storage \<Rightarrow> storage \<Rightarrow> error + bool" where
  "storageEq a b =
    (case a of
       VFloat32 x \<Rightarrow> (case b of VFloat32 y \<Rightarrow> Inr (f32_eq x y) | _ \<Rightarrow> Inr False)
     | VFloat64 x \<Rightarrow> (case b of VFloat64 y \<Rightarrow> Inr (f64_eq x y) | _ \<Rightarrow> Inr False)
     | VComplex64 r i \<Rightarrow>
         (case b of VComplex64 r' i' \<Rightarrow> Inr (f32_eq r r' \<and> f32_eq i i') | _ \<Rightarrow> Inr False)
     | VComplex128 r i \<Rightarrow>
         (case b of VComplex128 r' i' \<Rightarrow> Inr (f64_eq r r' \<and> f64_eq i i') | _ \<Rightarrow> Inr False)
     | VSlice p \<Rightarrow> Inl (HostPanic UncomparableType)
     | VMap p \<Rightarrow> Inl (HostPanic UncomparableType)
     | VFunc p \<Rightarrow> Inl (HostPanic UncomparableType)
     | _ \<Rightarrow> Inr (a = b))"

fun storageOf :: "rvalue \<Rightarrow> storage" where
  "storageOf (RV n s) = s"

definition ifaceEq :: "rvalue \<Rightarrow> rvalue \<Rightarrow> error + bool" where
  "ifaceEq lv rv =
    (if rv_Kind lv = reflect_Invalid \<or> rv_Kind rv = reflect_Invalid
       then Inl (HostPanic ReflectValueError)
     else if rv_Type lv \<noteq> rv_Type rv then Inr False
     else storageEq (storageOf lv) (storageOf rv))"

text \<open>\<open>v.Convert(t)\<close> panics when the value cannot be converted to the type.\<close>

definition rv_Convert :: "host \<Rightarrow> rvalue \<Rightarrow> rtype \<Rightarrow> error + rvalue" where
  "rv_Convert m v t =
    (case reflect_Convert m v t of None \<Rightarrow> Inl (HostPanic ReflectConvert) | Some c \<Rightarrow> Inr c)"

subsection \<open>The comparison operators\<close>

text \<open>
  The result of a comparison has the type \<open>typ\<close> given by the caller. For a named type
  the value is a zero value of its reflect type, set to the result; otherwise it is a
  plain \<open>bool\<close>. \<open>operatorLess\<close> allocates with \<open>getSettableZeroVal\<close>, the other
  operators with \<open>reflect.New(newRtyp).Elem()\<close>.
\<close>

definition boolResult ::
    "environ \<Rightarrow> string \<Rightarrow> (rtype \<Rightarrow> rvalue) \<Rightarrow> gotype \<Rightarrow> bool \<Rightarrow> error + Object" where
  "boolResult env fname alloc typ b =
    bindE (if isNamed typ then
             (case getReflectType env typ of
                None \<Rightarrow> Inl (Fatal (fname @ '': Couldn't get reflect.Type from types.Type''))
              | Some newRtyp \<Rightarrow> rv_SetBool (alloc newRtyp) b)
           else Inr (RV ''bool'' (VBool b))) (\<lambda>newVal.
    Inr \<lparr>Value = Reflect newVal, Typ = typ\<rparr>)"

text \<open>\<open>operatorLess\<close> implements the binary operation \<open><\<close>.\<close>

definition operatorLess :: "host \<Rightarrow> environ \<Rightarrow> Object \<Rightarrow> Object \<Rightarrow> gotype \<Rightarrow> error + Object" where
  "operatorLess m env left0 right0 typ =
    bindE (getTypedObject m left0) (\<lambda>left.
    bindE (getTypedObject m right0) (\<lambda>right.
    bindE (asReflect (Value left)) (\<lambda>lv.
    bindE (asReflect (Value right)) (\<lambda>rv.
    bindE (if rv_Kind lv \<in> set signedKinds then ints lv rv (\<lambda>a b. Inr (a <s b))
           else if rv_Kind lv \<in> set unsignedKinds then uints lv rv (\<lambda>a b. Inr (a < b))
           else if rv_Kind lv \<in> set floatKinds then floats m lv rv (\<lambda>a b. Inr (f64_lt a b))
           else if rv_Kind lv = reflect_String then Inr (rv_String lv < rv_String rv)
           else Inl (Panic ''Type error: Invalid operands to ordered comparison'')) (\<lambda>res.
    boolResult env ''operatorLess'' getSettableZeroVal typ res)))))"

text \<open>\<open>operatorGreater\<close> implements the binary operation \<open>>\<close>.\<close>

definition operatorGreater :: "host \<Rightarrow> environ \<Rightarrow> Object \<Rightarrow> Object \<Rightarrow> gotype \<Rightarrow> error + Object" where
  "operatorGreater m env left0 right0 typ =
    bindE (getTypedObject m left0) (\<lambda>left.
    bindE (getTypedObject m right0) (\<lambda>right.
    bindE (asReflect (Value left)) (\<lambda>lv.
    bindE (asReflect (Value right)) (\<lambda>rv.
    bindE (if rv_Kind lv \<in> set signedKinds then ints lv rv (\<lambda>a b. Inr (b <s a))
           else if rv_Kind lv \<in> set unsignedKinds then uints lv rv (\<lambda>a b. Inr (b < a))
           else if rv_Kind lv \<in> set floatKinds then floats m lv rv (\<lambda>a b. Inr (f64_lt b a))
           else if rv_Kind lv = reflect_String then Inr (rv_String rv < rv_String lv)
           else Inl (Panic ''Type error: Invalid operands to ordered comparison'')) (\<lambda>res.
    boolResult env ''operatorGreater'' reflect_New_Elem typ res)))))"

text \<open>\<open>operatorLessEqual\<close> implements the binary operation \<open><=\<close>.\<close>

definition operatorLessEqual :: "host \<Rightarrow> environ \<Rightarrow> Object \<Rightarrow> Object \<Rightarrow> gotype \<Rightarrow> error + Object" where
  "operatorLessEqual m env left0 right0 typ =
    bindE (getTypedObject m left0) (\<lambda>left.
    bindE (getTypedObject m right0) (\<lambda>right.
    bindE (asReflect (Value left)) (\<lambda>lv.
    bindE (asReflect (Value right)) (\<lambda>rv.
    bindE (if rv_Kind lv \<in> set signedKinds then ints lv rv (\<lambda>a b. Inr (a \<le>s b))
           else if rv_Kind lv \<in> set unsignedKinds then uints lv rv (\<lambda>a b. Inr (a \<le> b))
           else if rv_Kind lv \<in> set floatKinds then floats m lv rv (\<lambda>a b. Inr (f64_le a b))
           else if rv_Kind lv = reflect_String then Inr (rv_String lv \<le> rv_String rv)
           else Inl (Panic ''Type error: Invalid operands to ordered comparison'')) (\<lambda>res.
    boolResult env ''operatorLessEqual'' reflect_New_Elem typ res)))))"

text \<open>\<open>operatorGreaterEqual\<close> implements the binary operation \<open>>=\<close>.\<close>

definition operatorGreaterEqual :: "host \<Rightarrow> environ \<Rightarrow> Object \<Rightarrow> Object \<Rightarrow> gotype \<Rightarrow> error + Object" where
  "operatorGreaterEqual m env left0 right0 typ =
    bindE (getTypedObject m left0) (\<lambda>left.
    bindE (getTypedObject m right0) (\<lambda>right.
    bindE (asReflect (Value left)) (\<lambda>lv.
    bindE (asReflect (Value right)) (\<lambda>rv.
    bindE (if rv_Kind lv \<in> set signedKinds then ints lv rv (\<lambda>a b. Inr (b \<le>s a))
           else if rv_Kind lv \<in> set unsignedKinds then uints lv rv (\<lambda>a b. Inr (b \<le> a))
           else if rv_Kind lv \<in> set floatKinds then floats m lv rv (\<lambda>a b. Inr (f64_le b a))
           else if rv_Kind lv = reflect_String then Inr (rv_String rv \<le> rv_String lv)
           else Inl (Panic ''Type error: Invalid operands to ordered comparison'')) (\<lambda>res.
    boolResult env ''operatorGreaterEqual'' reflect_New_Elem typ res)))))"

text \<open>
  \<open>operatorEqual\<close> implements the binary operation \<open>==\<close>. Either operand may be the
  untyped nil, which is not normalised and whose \<open>reflect.Value\<close> stays the zero Value.
\<close>

definition isUntypedNil :: "gotype \<Rightarrow> bool" where
  "isUntypedNil t =
    (if isTyped t then False
     else (case Underlying t of Basic k \<Rightarrow> k = types_UntypedNil | _ \<Rightarrow> False))"

definition zeroValue :: rvalue where
  "zeroValue = RV [] VInvalid"

definition operatorEqual :: "host \<Rightarrow> environ \<Rightarrow> Object \<Rightarrow> Object \<Rightarrow> gotype \<Rightarrow> error + Object" where
  "operatorEqual m env left0 right0 typ =
    (let leftIsUntypedNil = isUntypedNil (Typ left0);
         rightIsUntypedNil = isUntypedNil (Typ right0) in
     bindE (if leftIsUntypedNil then Inr (left0, zeroValue)
            else bindE (getTypedObject m left0) (\<lambda>l.
                 bindE (asReflect (Value l)) (\<lambda>v. Inr (l, v)))) (\<lambda>(left, lv).
     bindE (if rightIsUntypedNil then Inr (right0, zeroValue)
            else bindE (getTypedObject m right0) (\<lambda>r.
                 bindE (asReflect (Value r)) (\<lambda>v. Inr (r, v)))) (\<lambda>(right, rv).
     bindE (if leftIsUntypedNil then
              (if rightIsUntypedNil then Inr True else rv_IsNil rv)
            else if rightIsUntypedNil then rv_IsNil lv
            else if types_Identical (Typ left) (Typ right) then ifaceEq lv rv
            else if types_AssignableTo m (Typ left) (Typ right) then
              bindE (rv_Convert m lv (rv_Type rv)) (\<lambda>clv. ifaceEq clv rv)
            else
              bindE (rv_Convert m rv (rv_Type lv)) (\<lambda>crv. ifaceEq lv crv)) (\<lambda>equal.
     boolResult env ''operatorEqual'' reflect_New_Elem typ equal))))"

section \<open>Reading results and sample operands\<close>

text \<open>
  The mathematical value of an integer storage: two's complement for the signed kinds,
  the plain binary value for the unsigned kinds.
\<close>

fun intValue :: "storage \<Rightarrow> int option" where
  "intValue (VInt w) = Some (sint w)"
| "intValue (VInt8 w) = Some (sint w)"
| "intValue (VInt16 w) = Some (sint w)"
| "intValue (VInt32 w) = Some (sint w)"
| "intValue (VInt64 w) = Some (sint w)"
| "intValue (VUint w) = Some (uint w)"
| "intValue (VUint8 w) = Some (uint w)"
| "intValue (VUint16 w) = Some (uint w)"
| "intValue (VUint32 w) = Some (uint w)"
| "intValue (VUint64 w) = Some (uint w)"
| "intValue (VUintptr w) = Some (uint w)"
| "intValue s = None"

text \<open>The storage of an integer kind that holds the low bits of an integer.\<close>

fun mkInt :: "rkind \<Rightarrow> int \<Rightarrow> storage" where
  "mkInt reflect_Int i = VInt (word_of_int i)"
| "mkInt reflect_Int8 i = VInt8 (word_of_int i)"
| "mkInt reflect_Int16 i = VInt16 (word_of_int i)"
| "mkInt reflect_Int32 i = VInt32 (word_of_int i)"
| "mkInt reflect_Int64 i = VInt64 (word_of_int i)"
| "mkInt reflect_Uint i = VUint (word_of_int i)"
| "mkInt reflect_Uint8 i = VUint8 (word_of_int i)"
| "mkInt reflect_Uint16 i = VUint16 (word_of_int i)"
| "mkInt reflect_Uint32 i = VUint32 (word_of_int i)"
| "mkInt reflect_Uint64 i = VUint64 (word_of_int i)"
| "mkInt reflect_Uintptr i = VUintptr (word_of_int i)"
| "mkInt k i = VInvalid"

text \<open>The bit width of an integer kind, and the integers it represents.\<close>

fun bitWidth :: "rkind \<Rightarrow> nat" where
  "bitWidth reflect_Int8 = 8"
| "bitWidth reflect_Uint8 = 8"
| "bitWidth reflect_Int16 = 16"
| "bitWidth reflect_Uint16 = 16"
| "bitWidth reflect_Int32 = 32"
| "bitWidth reflect_Uint32 = 32"
| "bitWidth k = 64"

definition representable :: "rkind \<Rightarrow> int \<Rightarrow> bool" where
  "representable k i =
    (if k \<in> set signedKinds then - (2 ^ (bitWidth k - 1)) \<le> i \<and> i < 2 ^ (bitWidth k - 1)
     else 0 \<le> i \<and> i < 2 ^ bitWidth k)"

text \<open>
  An unsigned \<open>W\<close>-bit pattern \<open>u\<close> reinterpreted in the signedness of a kind: for a
  signed kind the patterns from \<open>2 ^ (W - 1)\<close> on stand for \<open>u - 2 ^ W\<close>.
\<close>

definition reinterpret :: "rkind \<Rightarrow> int \<Rightarrow> int" where
  "reinterpret k u =
    (if k \<in> set signedKinds \<and> 2 ^ (bitWidth k - 1) \<le> u then u - 2 ^ bitWidth k else u)"

text \<open>
  A result is typed by its left operand when its type is the type of the normalised left
  operand and its value has the reflect type that the registry gives for that type.
\<close>

definition resultTyped :: "host \<Rightarrow> environ \<Rightarrow> Object \<Rightarrow> Object \<Rightarrow> bool" where
  "resultTyped m env left0 res =
    (\<exists>left v. getTypedObject m left0 = Inr left \<and> Typ res = Typ left \<and> Value res = Reflect v
       \<and> getReflectType env (Typ left) = Some (rv_Type v))"

text \<open>
  A comparison result of the type \<open>typ\<close> that carries the boolean \<open>b\<close>: for a named
  type a value of the type's reflect type, of kind Bool; otherwise a plain \<open>bool\<close>.
\<close>

definition boolTyped :: "environ \<Rightarrow> gotype \<Rightarrow> bool \<Rightarrow> Object \<Rightarrow> bool" where
  "boolTyped env typ b res \<longleftrightarrow>
     Typ res = typ
     \<and> (isNamed typ \<longrightarrow> (\<exists>n. getReflectType env typ = Some (RType n reflect_Bool)
                             \<and> Value res = Reflect (RV n (VBool b))))
     \<and> (\<not> isNamed typ \<longrightarrow> Value res = Reflect (RV ''bool'' (VBool b)))"

text \<open>
  The reference kinds, whose zero value is nil; the storages that Go's \<open>==\<close> compares
  without a panic; and the storages that hold a NaN, as a float or as a part of a complex
  number.
\<close>

definition referenceKinds :: "rkind list" where
  "referenceKinds = [reflect_Ptr, reflect_Slice, reflect_Map, reflect_Chan, reflect_Func]"

definition comparable :: "storage \<Rightarrow> bool" where
  "comparable s \<longleftrightarrow>
     kindOf s \<notin> {reflect_Invalid, reflect_Slice, reflect_Map, reflect_Func}"

fun hasNaN :: "storage \<Rightarrow> bool" where
  "hasNaN (VFloat32 w) = f32_isNaN w"
| "hasNaN (VFloat64 w) = f64_isNaN w"
| "hasNaN (VComplex64 r i) = (f32_isNaN r \<or> f32_isNaN i)"
| "hasNaN (VComplex128 r i) = (f64_isNaN r \<or> f64_isNaN i)"
| "hasNaN s = False"

definition objPtr :: "nat option \<Rightarrow> Object" where
  "objPtr p = \<lparr>Value = Reflect (RV ''*int'' (VPtr p)), Typ = Pointer (Basic types_Int)\<rparr>"

text \<open>
  The two ways out of a failing call: \<open>log.Fatal\<close> exits the process, every panic
  unwinds the stack of the evaluator. The engine declares no error value of its own.
\<close>

datatype channel = ProcessExit | Unwinding

fun channelOf :: "error \<Rightarrow> channel" where
  "channelOf (Fatal msg) = ProcessExit"
| "channelOf (Panic msg) = Unwinding"
| "channelOf (HostPanic p) = Unwinding"

fun failure :: "error + Object \<Rightarrow> channel option" where
  "failure (Inl e) = Some (channelOf e)"
| "failure (Inr obj) = None"

text \<open>
  A host whose floating-point unit answers zero and which converts nothing; it serves to
  evaluate examples on integers, strings and booleans.
\<close>

definition nullHost :: host where
  "nullHost =
    \<lparr>f64_add = (\<lambda>a b. 0), f64_sub = (\<lambda>a b. 0), f64_mul = (\<lambda>a b. 0), f64_quo = (\<lambda>a b. 0),
     f32_add = (\<lambda>a b. 0), f32_sub = (\<lambda>a b. 0), f32_mul = (\<lambda>a b. 0), f32_quo = (\<lambda>a b. 0),
     f64_to_f32 = (\<lambda>a. 0), f32_to_f64 = (\<lambda>a. 0),
     c128_mul = (\<lambda>a b. (0, 0)), c128_quo = (\<lambda>a b. (0, 0)),
     c64_mul = (\<lambda>a b. (0, 0)), c64_quo = (\<lambda>a b. (0, 0)),
     rat_to_f64 = (\<lambda>q. 0), types_AssignableTo = (\<lambda>s t. False),
     reflect_Convert = (\<lambda>v t. None)\<rparr>"

text \<open>
  A registry for the examples: the basic types used there and the named types whose
  underlying type is \<open>bool\<close>.
\<close>

definition sampleEnv :: environ where
  "sampleEnv =
    \<lparr>getReflectType = (\<lambda>t. case t of
        Basic types_Bool \<Rightarrow> Some (RType ''bool'' reflect_Bool)
      | Basic types_Int \<Rightarrow> Some (RType ''int'' reflect_Int)
      | Basic types_Int8 \<Rightarrow> Some (RType ''int8'' reflect_Int8)
      | Basic types_Int32 \<Rightarrow> Some (RType ''int32'' reflect_Int32)
      | Basic types_Uint \<Rightarrow> Some (RType ''uint'' reflect_Uint)
      | Basic types_Uint8 \<Rightarrow> Some (RType ''uint8'' reflect_Uint8)
      | Basic types_Uint64 \<Rightarrow> Some (RType ''uint64'' reflect_Uint64)
      | Basic types_Float64 \<Rightarrow> Some (RType ''float64'' reflect_Float64)
      | Named n (Basic types_Bool) \<Rightarrow> Some (RType n reflect_Bool)
      | _ \<Rightarrow> None)\<rparr>"

definition objBool :: "bool \<Rightarrow> Object" where
  "objBool b = \<lparr>Value = Reflect (RV ''bool'' (VBool b)), Typ = Basic types_Bool\<rparr>"

definition objInt :: "64 word \<Rightarrow> Object" where
  "objInt w = \<lparr>Value = Reflect (RV ''int'' (VInt w)), Typ = Basic types_Int\<rparr>"

definition objInt8 :: "8 word \<Rightarrow> Object" where
  "objInt8 w = \<lparr>Value = Reflect (RV ''int8'' (VInt8 w)), Typ = Basic types_Int8\<rparr>"

definition objInt32 :: "32 word \<Rightarrow> Object" where
  "objInt32 w = \<lparr>Value = Reflect (RV ''int32'' (VInt32 w)), Typ = Basic types_Int32\<rparr>"

definition objUint :: "64 word \<Rightarrow> Object" where
  "objUint w = \<lparr>Value = Reflect (RV ''uint'' (VUint w)), Typ = Basic types_Uint\<rparr>"

definition objUint8 :: "8 word \<Rightarrow> Object" where
  "objUint8 w = \<lparr>Value = Reflect (RV ''uint8'' (VUint8 w)), Typ = Basic types_Uint8\<rparr>"

definition objUint64 :: "64 word \<Rightarrow> Object" where
  "objUint64 w = \<lparr>Value = Reflect (RV ''uint64'' (VUint64 w)), Typ = Basic types_Uint64\<rparr>"

definition objFloat64 :: "64 word \<Rightarrow> Object" where
  "objFloat64 w = \<lparr>Value = Reflect (RV ''float64'' (VFloat64 w)), Typ = Basic types_Float64\<rparr>"

definition untypedInt :: "int \<Rightarrow> Object" where
  "untypedInt i = \<lparr>Value = Exact (exact_Int i), Typ = Basic types_UntypedInt\<rparr>"

definition untypedNil :: Object where
  "untypedNil = \<lparr>Value = NilInterface, Typ = Basic types_UntypedNil\<rparr>"

section \<open>Properties\<close>

subsection \<open>Basic facts\<close>

lemma bindE_Inr [simp]: "bindE (Inr v) f = f v"
  by (simp add: bindE_def)

lemma bindE_Inl [simp]: "bindE (Inl e) f = Inl e"
  by (simp add: bindE_def)

lemma bindE_eq_Inr: "bindE x f = Inr y \<longleftrightarrow> (\<exists>v. x = Inr v \<and> f v = Inr y)"
  by (cases x) simp_all

lemma bindE_InrE:
  assumes "bindE x f = Inr y"
  obtains v where "x = Inr v" and "f v = Inr y"
  using assms by (cases x) simp_all

lemma getTypedObject_typed: "isTyped (Typ obj) \<Longrightarrow> getTypedObject m obj = Inr obj"
  by (simp add: getTypedObject_def)

lemma ucast_scast_narrow:
  "LENGTH('a::len) \<le> LENGTH('b::len) \<Longrightarrow>
    (ucast (scast (x :: 'a word) :: 'b word) :: 'a word) = x"
  by (rule bit_word_eqI) (auto simp add: bit_simps)

lemma ucast_ucast_narrow:
  "LENGTH('a::len) \<le> LENGTH('b::len) \<Longrightarrow>
    (ucast (ucast (x :: 'a word) :: 'b word) :: 'a word) = x"
  by (rule bit_word_eqI) (auto simp add: bit_simps)

lemmas go_conv_defs = go_int_def go_int8_def go_int16_def go_int32_def go_int64_def
  go_uint_def go_uint8_def go_uint16_def go_uint32_def go_uint64_def go_uintptr_def
  to_int64_def to_uint64_def

lemmas sample_defs = sampleEnv_def objBool_def objInt_def objInt8_def objInt32_def
  objUint_def objUint8_def objUint64_def objFloat64_def untypedInt_def untypedNil_def

lemma sint_shrS: "sint (shrS x amt) = sint x div 2 ^ unat amt"
  by (simp add: shrS_def sint_signed_drop_bit_eq drop_bit_eq_div)

lemma uint_shrU: "uint (shrU x amt) = uint x div 2 ^ unat amt"
proof -
  have "unat (drop_bit (unat amt) x) = unat x div 2 ^ unat amt"
    by (subst unat_drop_bit_eq) (rule drop_bit_eq_div)
  then have "int (unat (drop_bit (unat amt) x)) = int (unat x) div 2 ^ unat amt"
    by (simp only: zdiv_int of_nat_power of_nat_numeral)
  then show ?thesis
    by (simp only: shrU_def uint_nat)
qed

lemma boolResult_plain: "boolResult env fname alloc (Basic types_Bool) b = Inr (objBool b)"
  by (simp add: boolResult_def objBool_def)

lemma isUntypedNil_typed: "isTyped t \<Longrightarrow> \<not> isUntypedNil t"
  by (simp add: isUntypedNil_def)

subsection \<open>C1: addition wraps at the width of the kind\<close>

lemma word_of_int_signed_wrap:
  "(word_of_int (if 2 ^ (LENGTH('a) - 1) \<le> x mod 2 ^ LENGTH('a)
                 then x mod 2 ^ LENGTH('a) - 2 ^ LENGTH('a) else x mod 2 ^ LENGTH('a))
      :: 'a::len word) = word_of_int x"
  by (simp add: word_of_int_eq_iff take_bit_eq_mod)

lemma word_of_int_unsigned_wrap:
  "(word_of_int (x mod 2 ^ LENGTH('a)) :: 'a::len word) = word_of_int x"
  by (simp add: word_of_int_eq_iff take_bit_eq_mod)

lemma sint_word_of_int_self:
  "- (2 ^ (LENGTH('a) - 1)) \<le> r \<Longrightarrow> r < 2 ^ (LENGTH('a) - 1) \<Longrightarrow>
     sint (word_of_int r :: 'a::len word) = r"
  by (simp add: sint_sbintrunc' signed_take_bit_int_eq_self)

lemma uint_word_of_int_self:
  "0 \<le> r \<Longrightarrow> r < 2 ^ LENGTH('a) \<Longrightarrow> uint (word_of_int r :: 'a::len word) = r"
  by (simp add: uint_word_of_int)

lemma representable_reinterpret:
  assumes "k \<in> set signedKinds \<union> set unsignedKinds"
  shows "representable k (reinterpret k (x mod 2 ^ bitWidth k))"
proof -
  have bounds: "0 \<le> x mod 256" "x mod 256 < 256" "0 \<le> x mod 65536" "x mod 65536 < 65536"
    "0 \<le> x mod 4294967296" "x mod 4294967296 < 4294967296"
    "0 \<le> x mod 18446744073709551616" "x mod 18446744073709551616 < 18446744073709551616"
    by simp_all
  from assms show ?thesis
    by (cases k;
        simp add: signedKinds_def unsignedKinds_def representable_def reinterpret_def;
        insert bounds; linarith)
qed

lemma intValue_mkInt:
  "k \<in> set signedKinds \<union> set unsignedKinds \<Longrightarrow> representable k r \<Longrightarrow>
     intValue (mkInt k r) = Some r"
  by (cases k)
     (simp_all add: signedKinds_def unsignedKinds_def representable_def sint_word_of_int_self
        uint_word_of_int_self)

lemma mkInt_reinterpret:
  "k \<in> set signedKinds \<union> set unsignedKinds \<Longrightarrow>
     mkInt k (reinterpret k (x mod 2 ^ bitWidth k)) = mkInt k x"
  using word_of_int_signed_wrap [where 'a = 8, of x] word_of_int_signed_wrap [where 'a = 16, of x]
    word_of_int_signed_wrap [where 'a = 32, of x] word_of_int_signed_wrap [where 'a = 64, of x]
    word_of_int_unsigned_wrap [where 'a = 8, of x] word_of_int_unsigned_wrap [where 'a = 16, of x]
    word_of_int_unsigned_wrap [where 'a = 32, of x] word_of_int_unsigned_wrap [where 'a = 64, of x]
  by (cases k) (simp_all add: signedKinds_def unsignedKinds_def reinterpret_def)

lemma operatorAdd_mkInt:
  assumes "k \<in> set signedKinds \<union> set unsignedKinds"
    and "isTyped t" and "isTyped t'"
    and "getReflectType env t = Some (RType nm k)"
  shows "operatorAdd m env \<lparr>Value = Reflect (RV n (mkInt k a)), Typ = t\<rparr>
                         \<lparr>Value = Reflect (RV n' (mkInt k b)), Typ = t'\<rparr>
           = Inr \<lparr>Value = Reflect (RV nm (mkInt k (a + b))), Typ = t\<rparr>"
  using assms
  by (cases k)
     (simp_all add: operatorAdd_def getTypedObject_typed newValue_def getSettableZeroVal_def
        signedKinds_def unsignedKinds_def ints_def uints_def go_conv_defs
        ucast_scast_narrow ucast_ucast_narrow)

text \<open>
  C1. For an integer kind \<open>K\<close> of width \<open>W\<close> and integers \<open>a\<close>, \<open>b\<close> representable in \<open>K\<close>,
  \<open>operatorAdd\<close> on two typed operands of kind \<open>K\<close> holding \<open>a\<close> and \<open>b\<close> (the registry
  resolving the left type to kind \<open>K\<close>) returns an Object of the left type whose value is
  \<open>(a + b) mod 2 ^ W\<close> reinterpreted in the signedness of \<open>K\<close>: the sum is cut to the width
  of the kind before it is stored. So \<open>Int8(120) + Int8(10)\<close> is \<open>Int8(-126)\<close>.
\<close>

theorem operatorAdd_wraparound:
  assumes "k \<in> set signedKinds \<union> set unsignedKinds"
    and "representable k a" and "representable k b"
    and "isTyped t" and "isTyped t'"
    and "getReflectType env t = Some (RType nm k)"
  shows "operatorAdd m env \<lparr>Value = Reflect (RV n (mkInt k a)), Typ = t\<rparr>
                         \<lparr>Value = Reflect (RV n' (mkInt k b)), Typ = t'\<rparr>
           = Inr \<lparr>Value = Reflect (RV nm (mkInt k (reinterpret k ((a + b) mod 2 ^ bitWidth k)))),
                  Typ = t\<rparr>
         \<and> intValue (mkInt k a) = Some a
         \<and> intValue (mkInt k b) = Some b
         \<and> intValue (mkInt k (reinterpret k ((a + b) mod 2 ^ bitWidth k)))
             = Some (reinterpret k ((a + b) mod 2 ^ bitWidth k))
         \<and> operatorAdd m sampleEnv (objInt8 120) (objInt8 10) = Inr (objInt8 (- 126))"
proof -
  note kind = assms(1)
  have sum: "operatorAdd m env \<lparr>Value = Reflect (RV n (mkInt k a)), Typ = t\<rparr>
                         \<lparr>Value = Reflect (RV n' (mkInt k b)), Typ = t'\<rparr>
           = Inr \<lparr>Value = Reflect (RV nm (mkInt k (reinterpret k ((a + b) mod 2 ^ bitWidth k)))),
                  Typ = t\<rparr>"
    using operatorAdd_mkInt [OF kind assms(4) assms(5) assms(6)] mkInt_reinterpret [OF kind]
    by simp
  have example: "operatorAdd m sampleEnv (objInt8 120) (objInt8 10) = Inr (objInt8 (- 126))"
    by (simp add: operatorAdd_def getTypedObject_def isTyped_def newValue_def
          getSettableZeroVal_def sample_defs ints_def go_conv_defs)
  from sum example intValue_mkInt [OF kind assms(2)] intValue_mkInt [OF kind assms(3)]
    intValue_mkInt [OF kind representable_reinterpret [OF kind]]
  show ?thesis by blast
qed

theorem operatorAdd_wraparound_witness:
  "reflect_Int8 \<in> set signedKinds \<union> set unsignedKinds
   \<and> representable reflect_Int8 120 \<and> representable reflect_Int8 10
   \<and> isTyped (Basic types_Int8)
   \<and> getReflectType sampleEnv (Basic types_Int8) = Some (RType ''int8'' reflect_Int8)
   \<and> reinterpret reflect_Int8 ((120 + 10) mod 2 ^ bitWidth reflect_Int8) = - 126
   \<and> operatorAdd nullHost sampleEnv (objInt8 120) (objInt8 10) = Inr (objInt8 (- 126))
   \<and> intValue (VInt8 (- 126)) = Some (- 126)"
proof -
  have h1: "reflect_Int8 \<in> set signedKinds \<union> set unsignedKinds"
    by (simp add: signedKinds_def)
  have h2: "representable reflect_Int8 120" and h3: "representable reflect_Int8 10"
    by (simp_all add: representable_def signedKinds_def)
  have h4: "isTyped (Basic types_Int8)"
    by (simp add: isTyped_def)
  have h5: "getReflectType sampleEnv (Basic types_Int8) = Some (RType ''int8'' reflect_Int8)"
    by (simp add: sampleEnv_def)
  have r: "reinterpret reflect_Int8 ((120 + 10) mod 2 ^ bitWidth reflect_Int8) = - 126"
    by (simp add: reinterpret_def signedKinds_def)
  note w = operatorAdd_wraparound [OF h1 h2 h3 h4 h4 h5, of nullHost "''int8''" "''int8''"]
  from w have "operatorAdd nullHost sampleEnv (objInt8 120) (objInt8 10) = Inr (objInt8 (- 126))"
    unfolding r by (simp add: objInt8_def)
  moreover from w have "intValue (VInt8 (- 126)) = Some (- 126)"
    unfolding r by simp
  ultimately show ?thesis
    using h1 h2 h3 h4 h5 r by blast
qed

subsection \<open>C2: division by zero\<close>

text \<open>
  C2, as stated, fails: \<open>Quotient(Int(1), Int(0))\<close> raises no error of the engine's own that
  would set it apart from an internal-consistency fault. The engine does not look at the
  divisor; the division of the host panics, and the call is left by unwinding, the same
  way as by the engine's fault for invalid operands.
\<close>

theorem quotient_by_zero_counterexample:
  "operatorQuotient nullHost sampleEnv (objInt 1) (objInt 0) = Inl (HostPanic IntegerDivideByZero)
   \<and> operatorQuotient nullHost sampleEnv (objBool True) (objBool True)
       = Inl (Panic ''Type error: Invalid operands to division'')
   \<and> failure (operatorQuotient nullHost sampleEnv (objInt 1) (objInt 0))
       = failure (operatorQuotient nullHost sampleEnv (objBool True) (objBool True))"
  by (simp add: operatorQuotient_def getTypedObject_def isTyped_def newValue_def
        getSettableZeroVal_def sample_defs ints_def quoS_def go_conv_defs)

lemma quotient_zero_divisor:
  assumes "k \<in> set signedKinds \<union> set unsignedKinds"
    and "isTyped t" and "isTyped t'"
    and "getReflectType env t = Some rt"
  shows "operatorQuotient m env \<lparr>Value = Reflect (RV n (mkInt k a)), Typ = t\<rparr>
           \<lparr>Value = Reflect (RV n' (mkInt k 0)), Typ = t'\<rparr> = Inl (HostPanic IntegerDivideByZero)"
  using assms
  by (cases k)
     (simp_all add: operatorQuotient_def getTypedObject_typed newValue_def signedKinds_def
        unsignedKinds_def ints_def uints_def quoS_def quoU_def go_conv_defs)

lemma remainder_zero_divisor:
  assumes "k \<in> set signedKinds \<union> set unsignedKinds"
    and "isTyped t" and "isTyped t'"
    and "getReflectType env t = Some rt"
  shows "operatorRemainder m env \<lparr>Value = Reflect (RV n (mkInt k a)), Typ = t\<rparr>
           \<lparr>Value = Reflect (RV n' (mkInt k 0)), Typ = t'\<rparr> = Inl (HostPanic IntegerDivideByZero)"
  using assms
  by (cases k)
     (simp_all add: operatorRemainder_def getTypedObject_typed newValue_def signedKinds_def
        unsignedKinds_def ints_def uints_def remS_def remU_def go_conv_defs)

text \<open>
  C2, amended. For two typed operands of one integer kind, the right one zero, and a left
  type that the registry resolves, \<open>operatorQuotient\<close> and \<open>operatorRemainder\<close> return no
  Object: the division of the host panics with "integer divide by zero". The failure is
  not a process exit; it unwinds the evaluator, as a panic of the engine does.
\<close>

theorem division_by_zero_panics:
  assumes "k \<in> set signedKinds \<union> set unsignedKinds"
    and "isTyped t" and "isTyped t'"
    and "getReflectType env t = Some rt"
  shows "operatorQuotient m env \<lparr>Value = Reflect (RV n (mkInt k a)), Typ = t\<rparr>
           \<lparr>Value = Reflect (RV n' (mkInt k 0)), Typ = t'\<rparr> = Inl (HostPanic IntegerDivideByZero)
       \<and> operatorRemainder m env \<lparr>Value = Reflect (RV n (mkInt k a)), Typ = t\<rparr>
           \<lparr>Value = Reflect (RV n' (mkInt k 0)), Typ = t'\<rparr> = Inl (HostPanic IntegerDivideByZero)
       \<and> channelOf (HostPanic IntegerDivideByZero) = Unwinding
       \<and> channelOf (HostPanic IntegerDivideByZero) \<noteq> ProcessExit"
  using quotient_zero_divisor [OF assms] remainder_zero_divisor [OF assms]
  by simp

theorem division_by_zero_panics_witness:
  "reflect_Int \<in> set signedKinds \<union> set unsignedKinds
   \<and> isTyped (Basic types_Int)
   \<and> getReflectType sampleEnv (Basic types_Int) = Some (RType ''int'' reflect_Int)
   \<and> operatorQuotient nullHost sampleEnv (objInt 1) (objInt 0)
        = Inl (HostPanic IntegerDivideByZero)
   \<and> operatorRemainder nullHost sampleEnv (objInt 1) (objInt 0)
        = Inl (HostPanic IntegerDivideByZero)"
proof -
  have h1: "reflect_Int \<in> set signedKinds \<union> set unsignedKinds"
    by (simp add: signedKinds_def)
  have h2: "isTyped (Basic types_Int)"
    by (simp add: isTyped_def)
  have h3: "getReflectType sampleEnv (Basic types_Int) = Some (RType ''int'' reflect_Int)"
    by (simp add: sampleEnv_def)
  from division_by_zero_panics [OF h1 h2 h2 h3, of nullHost "''int''" 1 "''int''"]
  have "operatorQuotient nullHost sampleEnv (objInt 1) (objInt 0)
          = Inl (HostPanic IntegerDivideByZero)
        \<and> operatorRemainder nullHost sampleEnv (objInt 1) (objInt 0)
          = Inl (HostPanic IntegerDivideByZero)"
    by (simp add: objInt_def)
  with h1 h2 h3 show ?thesis
    by blast
qed

subsection \<open>C3: normalisation\<close>

text \<open>
  C3. \<open>getTypedObject\<close> returns an Object of a typed type unchanged, and applies the default
  promotion to an untyped constant: UntypedBool to Bool, UntypedInt to Int with the constant
  cut to its low 64 bits and no diagnostic, UntypedFloat to Float64, UntypedComplex to
  Complex128, UntypedRune to Rune stored as an Int32, UntypedString to String. On the
  untyped nil it fails: with the fatal "Got untyped nil", and in every case without
  returning an Object.
\<close>

theorem getTypedObject_default_promotion:
  "(isTyped (Typ obj) \<longrightarrow> getTypedObject m obj = Inr obj)
   \<and> (Underlying t = Basic types_UntypedBool \<longrightarrow>
        getTypedObject m \<lparr>Value = Exact (exact_Bool b), Typ = t\<rparr>
          = Inr \<lparr>Value = Reflect (RV ''bool'' (VBool b)), Typ = Basic types_Bool\<rparr>)
   \<and> (Underlying t = Basic types_UntypedInt \<longrightarrow>
        getTypedObject m \<lparr>Value = Exact (exact_Int i), Typ = t\<rparr>
          = Inr \<lparr>Value = Reflect (RV ''int'' (VInt (word_of_int i))), Typ = Basic types_Int\<rparr>
        \<and> uint (word_of_int i :: 64 word) = i mod 2 ^ 64)
   \<and> (Underlying t = Basic types_UntypedFloat \<longrightarrow>
        getTypedObject m \<lparr>Value = Exact (exact_Float q), Typ = t\<rparr>
          = Inr \<lparr>Value = Reflect (RV ''float64'' (VFloat64 (rat_to_f64 m q))),
                 Typ = Basic types_Float64\<rparr>)
   \<and> (Underlying t = Basic types_UntypedComplex \<longrightarrow>
        getTypedObject m \<lparr>Value = Exact (exact_Complex re im), Typ = t\<rparr>
          = Inr \<lparr>Value = Reflect (RV ''complex128''
                            (VComplex128 (rat_to_f64 m re) (rat_to_f64 m im))),
                 Typ = Basic types_Complex128\<rparr>)
   \<and> (Underlying t = Basic types_UntypedRune \<longrightarrow>
        getTypedObject m \<lparr>Value = Exact (exact_Int i), Typ = t\<rparr>
          = Inr \<lparr>Value = Reflect (RV ''int32'' (VInt32 (word_of_int i))),
                 Typ = Basic types_Rune\<rparr>
        \<and> types_Rune = types_Int32)
   \<and> (Underlying t = Basic types_UntypedString \<longrightarrow>
        getTypedObject m \<lparr>Value = Exact (exact_String s), Typ = t\<rparr>
          = Inr \<lparr>Value = Reflect (RV ''string'' (VString s)), Typ = Basic types_String\<rparr>)
   \<and> (Underlying t = Basic types_UntypedNil \<longrightarrow>
        getTypedObject m \<lparr>Value = Exact ev, Typ = t\<rparr>
          = Inl (Fatal ''getTypedObject: Got untyped nil'')
        \<and> (\<exists>e. getTypedObject m \<lparr>Value = v, Typ = t\<rparr> = Inl e))"
proof -
  have rune: "ucast (word_of_int i :: 64 word) = (word_of_int i :: 32 word)"
    by (rule bit_word_eqI) (auto simp add: bit_simps)
  have nil: "Underlying t = Basic types_UntypedNil \<Longrightarrow>
      \<exists>e. getTypedObject m \<lparr>Value = v, Typ = t\<rparr> = Inl e"
    by (cases v) (simp_all add: getTypedObject_def isTyped_def)
  show ?thesis
    using nil
    by (simp add: getTypedObject_def isTyped_def rune types_Rune_def take_bit_eq_mod
          uint_word_of_int)
qed

theorem getTypedObject_default_promotion_witness:
  "isTyped (Typ (objInt8 5))
   \<and> getTypedObject nullHost (objInt8 5) = Inr (objInt8 5)
   \<and> Underlying (Basic types_UntypedBool) = Basic types_UntypedBool
   \<and> getTypedObject nullHost \<lparr>Value = Exact (exact_Bool True), Typ = Basic types_UntypedBool\<rparr>
        = Inr (objBool True)
   \<and> Underlying (Basic types_UntypedInt) = Basic types_UntypedInt
   \<and> getTypedObject nullHost (untypedInt (2 ^ 64 + 5)) = Inr (objInt 5)
   \<and> Underlying (Basic types_UntypedFloat) = Basic types_UntypedFloat
   \<and> getTypedObject nullHost \<lparr>Value = Exact (exact_Float (1 / 2)), Typ = Basic types_UntypedFloat\<rparr>
        = Inr (objFloat64 0)
   \<and> Underlying (Basic types_UntypedComplex) = Basic types_UntypedComplex
   \<and> getTypedObject nullHost
        \<lparr>Value = Exact (exact_Complex 1 2), Typ = Basic types_UntypedComplex\<rparr>
        = Inr \<lparr>Value = Reflect (RV ''complex128'' (VComplex128 0 0)),
               Typ = Basic types_Complex128\<rparr>
   \<and> Underlying (Basic types_UntypedRune) = Basic types_UntypedRune
   \<and> getTypedObject nullHost \<lparr>Value = Exact (exact_Int 97), Typ = Basic types_UntypedRune\<rparr>
        = Inr (objInt32 97)
   \<and> Underlying (Basic types_UntypedString) = Basic types_UntypedString
   \<and> getTypedObject nullHost
        \<lparr>Value = Exact (exact_String ''go''), Typ = Basic types_UntypedString\<rparr>
        = Inr \<lparr>Value = Reflect (RV ''string'' (VString ''go'')), Typ = Basic types_String\<rparr>
   \<and> Underlying (Basic types_UntypedNil) = Basic types_UntypedNil
   \<and> (\<exists>e. getTypedObject nullHost untypedNil = Inl e)"
proof -
  have typed: "isTyped (Typ (objInt8 5))"
    by (simp add: objInt8_def isTyped_def)
  have low: "(word_of_int (2 ^ 64 + 5) :: 64 word) = 5"
    by simp
  note p = getTypedObject_default_promotion [where m = nullHost]
  from p [where obj = "objInt8 5"] typed
  have 1: "getTypedObject nullHost (objInt8 5) = Inr (objInt8 5)"
    by blast
  from p [where t = "Basic types_UntypedBool" and b = True]
  have 2: "getTypedObject nullHost
             \<lparr>Value = Exact (exact_Bool True), Typ = Basic types_UntypedBool\<rparr> = Inr (objBool True)"
    by (simp add: objBool_def)
  from p [where t = "Basic types_UntypedInt" and i = "2 ^ 64 + 5"]
  have 3: "getTypedObject nullHost (untypedInt (2 ^ 64 + 5)) = Inr (objInt 5)"
    by (simp add: untypedInt_def objInt_def)
  from p [where t = "Basic types_UntypedFloat" and q = "1 / 2"]
  have 4: "getTypedObject nullHost
             \<lparr>Value = Exact (exact_Float (1 / 2)), Typ = Basic types_UntypedFloat\<rparr>
             = Inr (objFloat64 0)"
    by (simp add: objFloat64_def nullHost_def)
  from p [where t = "Basic types_UntypedComplex" and re = 1 and im = 2]
  have 5: "getTypedObject nullHost
             \<lparr>Value = Exact (exact_Complex 1 2), Typ = Basic types_UntypedComplex\<rparr>
             = Inr \<lparr>Value = Reflect (RV ''complex128'' (VComplex128 0 0)),
                    Typ = Basic types_Complex128\<rparr>"
    by (simp add: nullHost_def)
  from p [where t = "Basic types_UntypedRune" and i = 97]
  have 6: "getTypedObject nullHost
             \<lparr>Value = Exact (exact_Int 97), Typ = Basic types_UntypedRune\<rparr> = Inr (objInt32 97)"
    by (simp add: objInt32_def types_Rune_def)
  from p [where t = "Basic types_UntypedString" and s = "''go''"]
  have 7: "getTypedObject nullHost
             \<lparr>Value = Exact (exact_String ''go''), Typ = Basic types_UntypedString\<rparr>
             = Inr \<lparr>Value = Reflect (RV ''string'' (VString ''go'')), Typ = Basic types_String\<rparr>"
    by simp
  from p [where t = "Basic types_UntypedNil" and v = NilInterface]
  have 8: "\<exists>e. getTypedObject nullHost untypedNil = Inl e"
    by (simp add: untypedNil_def)
  from typed 1 2 3 4 5 6 7 8 show ?thesis
    by simp
qed

subsection \<open>C4: the shift count\<close>






subsection \<open>C5: the right shift\<close>

text \<open>
  C5. \<open>operatorShiftRight\<close> is arithmetic on the signed kinds and logical on the unsigned
  kinds: for a typed left operand of an integer kind whose type the registry resolves to
  that kind, and a shift count \<open>amt\<close>, the result has the left operand's type and kind and
  its mathematical value is the left value divided by \<open>2 ^ amt\<close>, rounded down. Read in
  two's complement this is the sign-extending shift, read as a binary number the
  zero-filling one. So \<open>Int8(-8) >> Uint(1)\<close> is \<open>Int8(-4)\<close> and \<open>Uint8(248) >> Uint(1)\<close>
  is \<open>Uint8(124)\<close>.
\<close>

theorem operatorShiftRight_arithmetic_logical:
  assumes "isTyped t"
    and "getReflectType env t = Some (RType nm (kindOf s))"
    and "kindOf s \<in> set signedKinds \<union> set unsignedKinds"
    and "shiftCount right = Inr c"
    and "rv_Uint c = Inr amt"
  shows "(\<exists>s'. operatorShiftRight m env \<lparr>Value = Reflect (RV n s), Typ = t\<rparr> right
                = Inr \<lparr>Value = Reflect (RV nm s'), Typ = t\<rparr>
              \<and> kindOf s' = kindOf s
              \<and> intValue s' = map_option (\<lambda>i. i div 2 ^ unat amt) (intValue s))
         \<and> operatorShiftRight m sampleEnv (objInt8 (- 8)) (objUint 1) = Inr (objInt8 (- 4))
         \<and> operatorShiftRight m sampleEnv (objUint8 248) (objUint 1) = Inr (objUint8 124)"
proof -
  have general: "\<exists>s'. operatorShiftRight m env \<lparr>Value = Reflect (RV n s), Typ = t\<rparr> right
                = Inr \<lparr>Value = Reflect (RV nm s'), Typ = t\<rparr>
              \<and> kindOf s' = kindOf s
              \<and> intValue s' = map_option (\<lambda>i. i div 2 ^ unat amt) (intValue s)"
    using assms
    by (cases s)
       (simp_all add: operatorShiftRight_def getTypedObject_typed newValue_def
          getSettableZeroVal_def signedKinds_def unsignedKinds_def go_conv_defs
          ucast_scast_narrow ucast_ucast_narrow sint_shrS uint_shrU)
  have signed: "operatorShiftRight m sampleEnv (objInt8 (- 8)) (objUint 1) = Inr (objInt8 (- 4))"
    by (simp add: operatorShiftRight_def getTypedObject_def isTyped_def shiftCount_def
          newValue_def getSettableZeroVal_def sample_defs shrS_def go_conv_defs)
  have unsigned: "operatorShiftRight m sampleEnv (objUint8 248) (objUint 1) = Inr (objUint8 124)"
    by (simp add: operatorShiftRight_def getTypedObject_def isTyped_def shiftCount_def
          newValue_def getSettableZeroVal_def sample_defs shrU_def go_conv_defs)
  from general signed unsigned show ?thesis by blast
qed

theorem operatorShiftRight_arithmetic_logical_witness:
  "isTyped (Basic types_Int8)
   \<and> getReflectType sampleEnv (Basic types_Int8) = Some (RType ''int8'' (kindOf (VInt8 (- 8))))
   \<and> kindOf (VInt8 (- 8)) \<in> set signedKinds \<union> set unsignedKinds
   \<and> shiftCount (objUint 1) = Inr (RV ''uint'' (VUint 1))
   \<and> rv_Uint (RV ''uint'' (VUint 1)) = Inr 1
   \<and> (\<exists>s'. operatorShiftRight nullHost sampleEnv
              \<lparr>Value = Reflect (RV ''int8'' (VInt8 (- 8))), Typ = Basic types_Int8\<rparr> (objUint 1)
            = Inr \<lparr>Value = Reflect (RV ''int8'' s'), Typ = Basic types_Int8\<rparr>
          \<and> kindOf s' = reflect_Int8
          \<and> intValue s' = Some (- 4))"
proof -
  have h1: "isTyped (Basic types_Int8)"
    by (simp add: isTyped_def)
  have h2: "getReflectType sampleEnv (Basic types_Int8)
              = Some (RType ''int8'' (kindOf (VInt8 (- 8))))"
    by (simp add: sampleEnv_def)
  have h3: "kindOf (VInt8 (- 8)) \<in> set signedKinds \<union> set unsignedKinds"
    by (simp add: signedKinds_def)
  have h4: "shiftCount (objUint 1) = Inr (RV ''uint'' (VUint 1))"
    by (simp add: shiftCount_def objUint_def)
  have h5: "rv_Uint (RV ''uint'' (VUint 1)) = Inr 1"
    by simp
  from operatorShiftRight_arithmetic_logical [OF h1 h2 h3 h4 h5, of nullHost "''int8''"]
  have "\<exists>s'. operatorShiftRight nullHost sampleEnv
              \<lparr>Value = Reflect (RV ''int8'' (VInt8 (- 8))), Typ = Basic types_Int8\<rparr> (objUint 1)
            = Inr \<lparr>Value = Reflect (RV ''int8'' s'), Typ = Basic types_Int8\<rparr>
          \<and> kindOf s' = reflect_Int8
          \<and> intValue s' = Some (- 4)"
    by simp
  with h1 h2 h3 h4 h5 show ?thesis by blast
qed

subsection \<open>C6: the type of a comparison result\<close>

lemma bindE_assoc: "bindE (bindE x f) g = bindE x (\<lambda>v. bindE (f v) g)"
  by (cases x) simp_all

lemma rv_SetBool_zero:
  "rv_SetBool (reflect_New_Elem rt) b = Inr v \<Longrightarrow>
     \<exists>n. rt = RType n reflect_Bool \<and> v = RV n (VBool b)"
  by (cases rt; rename_tac n k; case_tac k) auto

lemma boolResult_Inr:
  assumes "boolResult env fname alloc typ b = Inr res"
    and "alloc = getSettableZeroVal \<or> alloc = reflect_New_Elem"
  shows "boolTyped env typ b res"
  using assms
  by (auto simp add: boolTyped_def boolResult_def bindE_eq_Inr getSettableZeroVal_def
        split: if_splits option.splits dest!: rv_SetBool_zero)

lemma comparison_form:
  assumes form: "\<And>ty. op ty = bindE X (boolResult env fname alloc ty)"
    and alloc: "alloc = getSettableZeroVal \<or> alloc = reflect_New_Elem"
    and res: "op typ = Inr res"
  shows "\<exists>b. op (Basic types_Bool) = Inr (objBool b) \<and> boolTyped env typ b res"
proof -
  from res obtain b where b: "X = Inr b" and r: "boolResult env fname alloc typ b = Inr res"
    unfolding form by (elim bindE_InrE)
  from b have "op (Basic types_Bool) = Inr (objBool b)"
    by (simp add: form boolResult_plain)
  with boolResult_Inr [OF r alloc] show ?thesis
    by blast
qed

lemma operatorLess_form:
  "operatorLess m env left0 right0 ty =
    bindE
     (bindE (getTypedObject m left0) (\<lambda>left.
    bindE (getTypedObject m right0) (\<lambda>right.
    bindE (asReflect (Value left)) (\<lambda>lv.
    bindE (asReflect (Value right)) (\<lambda>rv.
    (if rv_Kind lv \<in> set signedKinds then ints lv rv (\<lambda>a b. Inr (a <s b))
           else if rv_Kind lv \<in> set unsignedKinds then uints lv rv (\<lambda>a b. Inr (a < b))
           else if rv_Kind lv \<in> set floatKinds then floats m lv rv (\<lambda>a b. Inr (f64_lt a b))
           else if rv_Kind lv = reflect_String then Inr (rv_String lv < rv_String rv)
           else Inl (Panic ''Type error: Invalid operands to ordered comparison'')))))))
     (boolResult env ''operatorLess'' getSettableZeroVal ty)"
  unfolding operatorLess_def by (simp add: bindE_assoc)

lemma operatorGreater_form:
  "operatorGreater m env left0 right0 ty =
    bindE
     (bindE (getTypedObject m left0) (\<lambda>left.
    bindE (getTypedObject m right0) (\<lambda>right.
    bindE (asReflect (Value left)) (\<lambda>lv.
    bindE (asReflect (Value right)) (\<lambda>rv.
    (if rv_Kind lv \<in> set signedKinds then ints lv rv (\<lambda>a b. Inr (b <s a))
           else if rv_Kind lv \<in> set unsignedKinds then uints lv rv (\<lambda>a b. Inr (b < a))
           else if rv_Kind lv \<in> set floatKinds then floats m lv rv (\<lambda>a b. Inr (f64_lt b a))
           else if rv_Kind lv = reflect_String then Inr (rv_String rv < rv_String lv)
           else Inl (Panic ''Type error: Invalid operands to ordered comparison'')))))))
     (boolResult env ''operatorGreater'' reflect_New_Elem ty)"
  unfolding operatorGreater_def by (simp add: bindE_assoc)

lemma operatorLessEqual_form:
  "operatorLessEqual m env left0 right0 ty =
    bindE
     (bindE (getTypedObject m left0) (\<lambda>left.
    bindE (getTypedObject m right0) (\<lambda>right.
    bindE (asReflect (Value left)) (\<lambda>lv.
    bindE (asReflect (Value right)) (\<lambda>rv.
    (if rv_Kind lv \<in> set signedKinds then ints lv rv (\<lambda>a b. Inr (a \<le>s b))
           else if rv_Kind lv \<in> set unsignedKinds then uints lv rv (\<lambda>a b. Inr (a \<le> b))
           else if rv_Kind lv \<in> set floatKinds then floats m lv rv (\<lambda>a b. Inr (f64_le a b))
           else if rv_Kind lv = reflect_String then Inr (rv_String lv \<le> rv_String rv)
           else Inl (Panic ''Type error: Invalid operands to ordered comparison'')))))))
     (boolResult env ''operatorLessEqual'' reflect_New_Elem ty)"
  unfolding operatorLessEqual_def by (simp add: bindE_assoc)

lemma operatorGreaterEqual_form:
  "operatorGreaterEqual m env left0 right0 ty =
    bindE
     (bindE (getTypedObject m left0) (\<lambda>left.
    bindE (getTypedObject m right0) (\<lambda>right.
    bindE (asReflect (Value left)) (\<lambda>lv.
    bindE (asReflect (Value right)) (\<lambda>rv.
    (if rv_Kind lv \<in> set signedKinds then ints lv rv (\<lambda>a b. Inr (b \<le>s a))
           else if rv_Kind lv \<in> set unsignedKinds then uints lv rv (\<lambda>a b. Inr (b \<le> a))
           else if rv_Kind lv \<in> set floatKinds then floats m lv rv (\<lambda>a b. Inr (f64_le b a))
           else if rv_Kind lv = reflect_String then Inr (rv_String rv \<le> rv_String lv)
           else Inl (Panic ''Type error: Invalid operands to ordered comparison'')))))))
     (boolResult env ''operatorGreaterEqual'' reflect_New_Elem ty)"
  unfolding operatorGreaterEqual_def by (simp add: bindE_assoc)

lemma operatorEqual_form:
  "operatorEqual m env left0 right0 ty =
    bindE
     (let leftIsUntypedNil = isUntypedNil (Typ left0);
          rightIsUntypedNil = isUntypedNil (Typ right0) in
      bindE (if leftIsUntypedNil then Inr (left0, zeroValue)
             else bindE (getTypedObject m left0) (\<lambda>l.
                  bindE (asReflect (Value l)) (\<lambda>v. Inr (l, v)))) (\<lambda>(left, lv).
      bindE (if rightIsUntypedNil then Inr (right0, zeroValue)
             else bindE (getTypedObject m right0) (\<lambda>r.
                  bindE (asReflect (Value r)) (\<lambda>v. Inr (r, v)))) (\<lambda>(right, rv).
        if leftIsUntypedNil then
          (if rightIsUntypedNil then Inr True else rv_IsNil rv)
        else if rightIsUntypedNil then rv_IsNil lv
        else if types_Identical (Typ left) (Typ right) then ifaceEq lv rv
        else if types_AssignableTo m (Typ left) (Typ right) then
          bindE (rv_Convert m lv (rv_Type rv)) (\<lambda>clv. ifaceEq clv rv)
        else
          bindE (rv_Convert m rv (rv_Type lv)) (\<lambda>crv. ifaceEq lv crv))))
     (boolResult env ''operatorEqual'' reflect_New_Elem ty)"
  unfolding operatorEqual_def by (simp add: bindE_assoc Let_def split_def)

text \<open>
  C6. Whenever one of the five comparison operators returns an Object for the result type
  \<open>typ\<close>, the type of the Object is \<open>typ\<close>. If \<open>typ\<close> is a named type, the registry
  resolves it to a reflect type of kind Bool and the value is a value of that reflect type;
  otherwise the value is a plain \<open>bool\<close>. In both cases the value carries the boolean
  that the same comparison yields as a plain Bool. So comparing two Int32 operands with a
  named boolean result type gives an Object of that named type.
\<close>

theorem comparison_result_has_given_type:
  assumes "op \<in> {operatorLess, operatorGreater, operatorLessEqual, operatorGreaterEqual,
                 operatorEqual}"
    and "op m env left0 right0 typ = Inr res"
  shows "Typ res = typ
       \<and> (\<exists>b. op m env left0 right0 (Basic types_Bool) = Inr (objBool b)
              \<and> (isNamed typ \<longrightarrow>
                   (\<exists>n. getReflectType env typ = Some (RType n reflect_Bool)
                        \<and> Value res = Reflect (RV n (VBool b))))
              \<and> (\<not> isNamed typ \<longrightarrow> Value res = Reflect (RV ''bool'' (VBool b))))"
proof -
  have alloc: "getSettableZeroVal = getSettableZeroVal \<or> getSettableZeroVal = reflect_New_Elem"
    "reflect_New_Elem = getSettableZeroVal \<or> reflect_New_Elem = reflect_New_Elem"
    by simp_all
  from assms have "\<exists>b. op m env left0 right0 (Basic types_Bool) = Inr (objBool b)
                      \<and> boolTyped env typ b res"
  proof (elim insertE emptyE)
    assume "op = operatorLess" and "op m env left0 right0 typ = Inr res"
    then show ?thesis
      using comparison_form [of "operatorLess m env left0 right0", OF operatorLess_form alloc(1)]
      by simp
  next
    assume "op = operatorGreater" and "op m env left0 right0 typ = Inr res"
    then show ?thesis
      using comparison_form [of "operatorGreater m env left0 right0",
                             OF operatorGreater_form alloc(2)]
      by simp
  next
    assume "op = operatorLessEqual" and "op m env left0 right0 typ = Inr res"
    then show ?thesis
      using comparison_form [of "operatorLessEqual m env left0 right0",
                             OF operatorLessEqual_form alloc(2)]
      by simp
  next
    assume "op = operatorGreaterEqual" and "op m env left0 right0 typ = Inr res"
    then show ?thesis
      using comparison_form [of "operatorGreaterEqual m env left0 right0",
                             OF operatorGreaterEqual_form alloc(2)]
      by simp
  next
    assume "op = operatorEqual" and "op m env left0 right0 typ = Inr res"
    then show ?thesis
      using comparison_form [of "operatorEqual m env left0 right0",
                             OF operatorEqual_form alloc(2)]
      by simp
  qed
  then show ?thesis
    by (auto simp add: boolTyped_def)
qed

theorem comparison_result_has_given_type_witness:
  "operatorLess \<in> {operatorLess, operatorGreater, operatorLessEqual, operatorGreaterEqual,
                    operatorEqual}
   \<and> operatorLess nullHost sampleEnv (objInt32 1) (objInt32 2) (Named ''MyBool'' (Basic types_Bool))
        = Inr \<lparr>Value = Reflect (RV ''MyBool'' (VBool True)),
               Typ = Named ''MyBool'' (Basic types_Bool)\<rparr>
   \<and> operatorLess nullHost sampleEnv (objInt32 1) (objInt32 2) (Basic types_Bool)
        = Inr (objBool True)
   \<and> isNamed (Named ''MyBool'' (Basic types_Bool))
   \<and> getReflectType sampleEnv (Named ''MyBool'' (Basic types_Bool))
        = Some (RType ''MyBool'' reflect_Bool)"
proof -
  have h1: "operatorLess \<in> {operatorLess, operatorGreater, operatorLessEqual,
                             operatorGreaterEqual, operatorEqual}"
    by simp
  have h2: "operatorLess nullHost sampleEnv (objInt32 1) (objInt32 2)
              (Named ''MyBool'' (Basic types_Bool))
        = Inr \<lparr>Value = Reflect (RV ''MyBool'' (VBool True)),
               Typ = Named ''MyBool'' (Basic types_Bool)\<rparr>"
    by (simp add: operatorLess_def getTypedObject_def isTyped_def boolResult_def
          getSettableZeroVal_def sample_defs signedKinds_def ints_def word_sless_alt)
  from comparison_result_has_given_type [OF h1 h2]
  have "operatorLess nullHost sampleEnv (objInt32 1) (objInt32 2) (Basic types_Bool)
          = Inr (objBool True)
        \<and> getReflectType sampleEnv (Named ''MyBool'' (Basic types_Bool))
          = Some (RType ''MyBool'' reflect_Bool)"
    by auto
  with h1 h2 show ?thesis
    by simp
qed

subsection \<open>C7: equality with the untyped nil\<close>

lemma rv_IsNil_reference:
  "kindOf s \<in> set referenceKinds \<Longrightarrow> rv_IsNil (RV n s) = Inr (s = zeroOf (kindOf s))"
  by (cases s) (simp_all add: referenceKinds_def)

text \<open>
  C7. If both operands of \<open>operatorEqual\<close> are the untyped nil, the boolean of the result
  is true. If exactly one is, and the other is a typed value of a reference kind, the
  boolean is true exactly when that value is the nil (zero) value of its kind. The result
  Object is built from this boolean for the result type \<open>typ\<close>; for the plain \<open>bool\<close> type
  it is the Bool Object of the boolean.
\<close>

theorem operatorEqual_untyped_nil:
  "(isUntypedNil (Typ l) \<and> isUntypedNil (Typ r) \<longrightarrow>
      operatorEqual m env l r typ = boolResult env ''operatorEqual'' reflect_New_Elem typ True
      \<and> operatorEqual m env l r (Basic types_Bool) = Inr (objBool True))
   \<and> (isUntypedNil (Typ l) \<and> isTyped t \<and> kindOf s \<in> set referenceKinds \<longrightarrow>
      operatorEqual m env l \<lparr>Value = Reflect (RV n s), Typ = t\<rparr> typ
        = boolResult env ''operatorEqual'' reflect_New_Elem typ (s = zeroOf (kindOf s))
      \<and> operatorEqual m env l \<lparr>Value = Reflect (RV n s), Typ = t\<rparr> (Basic types_Bool)
        = Inr (objBool (s = zeroOf (kindOf s))))
   \<and> (isUntypedNil (Typ r) \<and> isTyped t \<and> kindOf s \<in> set referenceKinds \<longrightarrow>
      operatorEqual m env \<lparr>Value = Reflect (RV n s), Typ = t\<rparr> r typ
        = boolResult env ''operatorEqual'' reflect_New_Elem typ (s = zeroOf (kindOf s))
      \<and> operatorEqual m env \<lparr>Value = Reflect (RV n s), Typ = t\<rparr> r (Basic types_Bool)
        = Inr (objBool (s = zeroOf (kindOf s))))"
  by (simp add: operatorEqual_def Let_def isUntypedNil_typed getTypedObject_typed
        rv_IsNil_reference boolResult_plain)

theorem operatorEqual_untyped_nil_witness:
  "isUntypedNil (Typ untypedNil)
   \<and> isTyped (Pointer (Basic types_Int))
   \<and> kindOf (VPtr None) \<in> set referenceKinds
   \<and> kindOf (VPtr (Some 4096)) \<in> set referenceKinds
   \<and> operatorEqual nullHost sampleEnv untypedNil untypedNil (Basic types_Bool) = Inr (objBool True)
   \<and> operatorEqual nullHost sampleEnv untypedNil (objPtr None) (Basic types_Bool)
        = Inr (objBool True)
   \<and> operatorEqual nullHost sampleEnv (objPtr (Some 4096)) untypedNil (Basic types_Bool)
        = Inr (objBool False)"
proof -
  have h1: "isUntypedNil (Typ untypedNil)"
    by (simp add: untypedNil_def isUntypedNil_def isTyped_def)
  have h2: "isTyped (Pointer (Basic types_Int))"
    by (simp add: isTyped_def)
  have h3: "kindOf (VPtr None) \<in> set referenceKinds"
    and h4: "kindOf (VPtr (Some 4096)) \<in> set referenceKinds"
    by (simp_all add: referenceKinds_def)
  from operatorEqual_untyped_nil [where l = untypedNil and r = untypedNil and m = nullHost
         and env = sampleEnv] h1
  have 1: "operatorEqual nullHost sampleEnv untypedNil untypedNil (Basic types_Bool)
             = Inr (objBool True)"
    by blast
  from operatorEqual_untyped_nil [where l = untypedNil and s = "VPtr None"
         and t = "Pointer (Basic types_Int)" and n = "''*int''" and m = nullHost
         and env = sampleEnv] h1 h2 h3
  have 2: "operatorEqual nullHost sampleEnv untypedNil (objPtr None) (Basic types_Bool)
             = Inr (objBool True)"
    by (simp add: objPtr_def boolResult_plain)
  from operatorEqual_untyped_nil [where r = untypedNil and s = "VPtr (Some 4096)"
         and t = "Pointer (Basic types_Int)" and n = "''*int''" and m = nullHost
         and env = sampleEnv] h1 h2 h4
  have 3: "operatorEqual nullHost sampleEnv (objPtr (Some 4096)) untypedNil (Basic types_Bool)
             = Inr (objBool False)"
    by (simp add: objPtr_def boolResult_plain)
  from h1 h2 h3 h4 1 2 3 show ?thesis
    by blast
qed

subsection \<open>C8: equality of a value with itself\<close>

lemma storageEq_refl:
  "comparable s \<Longrightarrow> storageEq s s = Inr (\<not> hasNaN s)"
  by (cases s) (simp_all add: storageEq_def comparable_def f32_eq_def f64_eq_def)

lemma hasNaN_comparable: "hasNaN s \<Longrightarrow> comparable s"
  by (cases s) (simp_all add: comparable_def)

lemma operatorEqual_self:
  assumes "isTyped t" and "comparable s"
  shows "operatorEqual m env \<lparr>Value = Reflect (RV n s), Typ = t\<rparr>
           \<lparr>Value = Reflect (RV n s), Typ = t\<rparr> typ
         = boolResult env ''operatorEqual'' reflect_New_Elem typ (\<not> hasNaN s)"
proof -
  from assms(2) have "kindOf s \<noteq> reflect_Invalid"
    by (simp add: comparable_def)
  with assms show ?thesis
    by (simp add: operatorEqual_def Let_def isUntypedNil_typed getTypedObject_typed
          types_Identical_def ifaceEq_def storageEq_refl)
qed

text \<open>
  C8. For a typed value \<open>a\<close> of a comparable kind that holds no NaN (as a float, or as a
  part of a complex number), \<open>Equal(a, a)\<close> is true; for one that holds a NaN it is false.
  Two floats of one type are equal exactly when their bit patterns are equal by IEEE
  equality, in which no NaN equals anything and the two zeros are equal.
\<close>

theorem operatorEqual_reflexive_except_NaN:
  assumes "isTyped t"
  shows "(comparable s \<and> \<not> hasNaN s \<longrightarrow>
            operatorEqual m env \<lparr>Value = Reflect (RV n s), Typ = t\<rparr>
              \<lparr>Value = Reflect (RV n s), Typ = t\<rparr> (Basic types_Bool) = Inr (objBool True))
       \<and> (hasNaN s \<longrightarrow>
            operatorEqual m env \<lparr>Value = Reflect (RV n s), Typ = t\<rparr>
              \<lparr>Value = Reflect (RV n s), Typ = t\<rparr> (Basic types_Bool) = Inr (objBool False))
       \<and> operatorEqual m env \<lparr>Value = Reflect (RV n (VFloat64 x)), Typ = t\<rparr>
              \<lparr>Value = Reflect (RV n (VFloat64 y)), Typ = t\<rparr> (Basic types_Bool)
           = Inr (objBool (\<not> f64_isNaN x \<and> \<not> f64_isNaN y \<and> f64_key x = f64_key y))
       \<and> operatorEqual m env \<lparr>Value = Reflect (RV n (VComplex128 x i)), Typ = t\<rparr>
              \<lparr>Value = Reflect (RV n (VComplex128 y j)), Typ = t\<rparr> (Basic types_Bool)
           = Inr (objBool (f64_eq x y \<and> f64_eq i j))
       \<and> f64_isNaN 0x7FF8000000000000
       \<and> operatorEqual m env (objFloat64 0x7FF8000000000000) (objFloat64 0x7FF8000000000000)
            (Basic types_Bool) = Inr (objBool False)"
proof -
  have nan: "f64_isNaN 0x7FF8000000000000"
    by (simp add: f64_isNaN_def)
  have floats: "operatorEqual m env \<lparr>Value = Reflect (RV n (VFloat64 x)), Typ = t\<rparr>
              \<lparr>Value = Reflect (RV n (VFloat64 y)), Typ = t\<rparr> (Basic types_Bool)
           = Inr (objBool (\<not> f64_isNaN x \<and> \<not> f64_isNaN y \<and> f64_key x = f64_key y))"
    using assms
    by (simp add: operatorEqual_def Let_def isUntypedNil_typed getTypedObject_typed
          types_Identical_def ifaceEq_def storageEq_def f64_eq_def boolResult_plain)
  have complexes: "operatorEqual m env \<lparr>Value = Reflect (RV n (VComplex128 x i)), Typ = t\<rparr>
              \<lparr>Value = Reflect (RV n (VComplex128 y j)), Typ = t\<rparr> (Basic types_Bool)
           = Inr (objBool (f64_eq x y \<and> f64_eq i j))"
    using assms
    by (simp add: operatorEqual_def Let_def isUntypedNil_typed getTypedObject_typed
          types_Identical_def ifaceEq_def storageEq_def boolResult_plain)
  have typed: "isTyped (Basic types_Float64)"
    by (simp add: isTyped_def)
  have example: "operatorEqual m env (objFloat64 0x7FF8000000000000)
            (objFloat64 0x7FF8000000000000) (Basic types_Bool) = Inr (objBool False)"
    using operatorEqual_self [OF typed, of "VFloat64 0x7FF8000000000000" m env "''float64''"
            "Basic types_Bool"] nan
    by (simp add: objFloat64_def comparable_def boolResult_plain)
  from operatorEqual_self [OF assms, of s m env n "Basic types_Bool"] hasNaN_comparable [of s]
    floats complexes nan example
  show ?thesis
    by (auto simp add: boolResult_plain)
qed

theorem operatorEqual_reflexive_except_NaN_witness:
  "isTyped (Basic types_Int8)
   \<and> comparable (VInt8 5) \<and> \<not> hasNaN (VInt8 5)
   \<and> operatorEqual nullHost sampleEnv (objInt8 5) (objInt8 5) (Basic types_Bool)
        = Inr (objBool True)
   \<and> isTyped (Basic types_Float64)
   \<and> hasNaN (VFloat64 0x7FF0000000000001)
   \<and> operatorEqual nullHost sampleEnv (objFloat64 0x7FF0000000000001)
        (objFloat64 0x7FF0000000000001) (Basic types_Bool) = Inr (objBool False)
   \<and> operatorEqual nullHost sampleEnv (objFloat64 0x8000000000000000) (objFloat64 0)
        (Basic types_Bool) = Inr (objBool True)"
proof -
  have h1: "isTyped (Basic types_Int8)" and h2: "isTyped (Basic types_Float64)"
    by (simp_all add: isTyped_def)
  have h3: "comparable (VInt8 5) \<and> \<not> hasNaN (VInt8 5)"
    by (simp add: comparable_def)
  have h4: "hasNaN (VFloat64 0x7FF0000000000001)"
    by (simp add: f64_isNaN_def)
  from operatorEqual_reflexive_except_NaN [OF h1, of "VInt8 5" nullHost sampleEnv "''int8''"] h3
  have 1: "operatorEqual nullHost sampleEnv (objInt8 5) (objInt8 5) (Basic types_Bool)
             = Inr (objBool True)"
    by (simp add: objInt8_def)
  note f = operatorEqual_reflexive_except_NaN [OF h2, of "VFloat64 0x7FF0000000000001" nullHost
             sampleEnv "''float64''" "0x8000000000000000" 0]
  from f h4
  have 2: "operatorEqual nullHost sampleEnv (objFloat64 0x7FF0000000000001)
             (objFloat64 0x7FF0000000000001) (Basic types_Bool) = Inr (objBool False)"
    by (simp add: objFloat64_def)
  from f
  have 3: "operatorEqual nullHost sampleEnv (objFloat64 0x8000000000000000) (objFloat64 0)
             (Basic types_Bool) = Inr (objBool True)"
    by (simp add: objFloat64_def f64_isNaN_def f64_key_def)
  from h1 h2 h3 h4 1 2 3 show ?thesis
    by blast
qed

subsection \<open>C9: the type of an arithmetic or bitwise result\<close>

lemma rv_SetInt_Type: "rv_SetInt v x = Inr v' \<Longrightarrow> rv_Type v' = rv_Type v"
proof (cases v)
  case (RV n s)
  assume "rv_SetInt v x = Inr v'"
  with RV show ?thesis by (cases s) auto
qed

lemma rv_SetUint_Type: "rv_SetUint v x = Inr v' \<Longrightarrow> rv_Type v' = rv_Type v"
proof (cases v)
  case (RV n s)
  assume "rv_SetUint v x = Inr v'"
  with RV show ?thesis by (cases s) auto
qed

lemma rv_SetFloat_Type: "rv_SetFloat m v x = Inr v' \<Longrightarrow> rv_Type v' = rv_Type v"
proof (cases v)
  case (RV n s)
  assume "rv_SetFloat m v x = Inr v'"
  with RV show ?thesis by (cases s) auto
qed

lemma rv_SetComplex_Type: "rv_SetComplex m v x = Inr v' \<Longrightarrow> rv_Type v' = rv_Type v"
proof (cases v)
  case (RV n s)
  assume "rv_SetComplex m v x = Inr v'"
  with RV show ?thesis by (cases s) auto
qed

lemma rv_SetString_Type: "rv_SetString v x = Inr v' \<Longrightarrow> rv_Type v' = rv_Type v"
proof (cases v)
  case (RV n s)
  assume "rv_SetString v x = Inr v'"
  with RV show ?thesis by (cases s) auto
qed

lemmas setter_Type = rv_SetInt_Type rv_SetUint_Type rv_SetFloat_Type rv_SetComplex_Type
  rv_SetString_Type

lemma kindOf_zeroOf: "kindOf (zeroOf k) = k"
  by (cases k) simp_all

lemma rv_Type_zero: "rv_Type (getSettableZeroVal rt) = rt"
  by (cases rt) (simp add: getSettableZeroVal_def kindOf_zeroOf)

lemma newValue_Type:
  "newValue env fname t = Inr newVal \<Longrightarrow>
     \<exists>rt. getReflectType env t = Some rt \<and> newVal = getSettableZeroVal rt \<and> rv_Type newVal = rt"
  by (auto simp add: newValue_def rv_Type_zero split: option.splits)

lemma ints_Inr:
  "ints lv rv f = Inr y \<longleftrightarrow> (\<exists>a b. rv_Int lv = Inr a \<and> rv_Int rv = Inr b \<and> f a b = Inr y)"
  by (simp add: ints_def bindE_eq_Inr)

lemma uints_Inr:
  "uints lv rv f = Inr y \<longleftrightarrow> (\<exists>a b. rv_Uint lv = Inr a \<and> rv_Uint rv = Inr b \<and> f a b = Inr y)"
  by (simp add: uints_def bindE_eq_Inr)

lemma floats_Inr:
  "floats m lv rv f = Inr y \<longleftrightarrow>
     (\<exists>a b. rv_Float m lv = Inr a \<and> rv_Float m rv = Inr b \<and> f a b = Inr y)"
  by (simp add: floats_def bindE_eq_Inr)

lemma complexes_Inr:
  "complexes m lv rv f = Inr y \<longleftrightarrow>
     (\<exists>a b. rv_Complex m lv = Inr a \<and> rv_Complex m rv = Inr b \<and> f a b = Inr y)"
  by (simp add: complexes_def bindE_eq_Inr)

lemmas reads_Inr = ints_Inr uints_Inr floats_Inr complexes_Inr bindE_eq_Inr

lemma operatorAdd_result:
  assumes "operatorAdd m env left0 right0 = Inr res"
  shows "resultTyped m env left0 res"
  using assms unfolding operatorAdd_def
  apply (elim bindE_InrE)
  subgoal for left right lv rv newVal v
    apply (drule newValue_Type)
    apply (cases "rv_Kind lv")
    apply (auto simp add: resultTyped_def reads_Inr dest!: setter_Type)
    done
  done

lemma operatorSubtract_result:
  assumes "operatorSubtract m env left0 right0 = Inr res"
  shows "resultTyped m env left0 res"
  using assms unfolding operatorSubtract_def
  apply (elim bindE_InrE)
  subgoal for left right lv rv newVal v
    apply (drule newValue_Type)
    apply (cases "rv_Kind lv")
    apply (auto simp add: resultTyped_def reads_Inr dest!: setter_Type)
    done
  done

lemma operatorMultiply_result:
  assumes "operatorMultiply m env left0 right0 = Inr res"
  shows "resultTyped m env left0 res"
  using assms unfolding operatorMultiply_def
  apply (elim bindE_InrE)
  subgoal for left right lv rv newVal v
    apply (drule newValue_Type)
    apply (cases "rv_Kind lv")
    apply (auto simp add: resultTyped_def reads_Inr dest!: setter_Type)
    done
  done

lemma operatorQuotient_result:
  assumes "operatorQuotient m env left0 right0 = Inr res"
  shows "resultTyped m env left0 res"
  using assms unfolding operatorQuotient_def
  apply (elim bindE_InrE)
  subgoal for left right lv rv newVal v
    apply (drule newValue_Type)
    apply (cases "rv_Kind lv")
    apply (auto simp add: resultTyped_def reads_Inr dest!: setter_Type)
    done
  done

lemma operatorRemainder_result:
  assumes "operatorRemainder m env left0 right0 = Inr res"
  shows "resultTyped m env left0 res"
  using assms unfolding operatorRemainder_def
  apply (elim bindE_InrE)
  subgoal for left right lv rv newVal v
    apply (drule newValue_Type)
    apply (cases "rv_Kind lv")
    apply (auto simp add: resultTyped_def reads_Inr dest!: setter_Type)
    done
  done

lemma operatorAnd_result:
  assumes "operatorAnd m env left0 right0 = Inr res"
  shows "resultTyped m env left0 res"
  using assms unfolding operatorAnd_def
  apply (elim bindE_InrE)
  subgoal for left right lv rv newVal v
    apply (drule newValue_Type)
    apply (cases "rv_Kind lv")
    apply (auto simp add: resultTyped_def reads_Inr dest!: setter_Type)
    done
  done

lemma operatorOr_result:
  assumes "operatorOr m env left0 right0 = Inr res"
  shows "resultTyped m env left0 res"
  using assms unfolding operatorOr_def
  apply (elim bindE_InrE)
  subgoal for left right lv rv newVal v
    apply (drule newValue_Type)
    apply (cases "rv_Kind lv")
    apply (auto simp add: resultTyped_def reads_Inr dest!: setter_Type)
    done
  done

lemma operatorXor_result:
  assumes "operatorXor m env left0 right0 = Inr res"
  shows "resultTyped m env left0 res"
  using assms unfolding operatorXor_def
  apply (elim bindE_InrE)
  subgoal for left right lv rv newVal v
    apply (drule newValue_Type)
    apply (cases "rv_Kind lv")
    apply (auto simp add: resultTyped_def reads_Inr dest!: setter_Type)
    done
  done

lemma operatorAndNot_result:
  assumes "operatorAndNot m env left0 right0 = Inr res"
  shows "resultTyped m env left0 res"
  using assms unfolding operatorAndNot_def
  apply (elim bindE_InrE)
  subgoal for left right lv rv newVal v
    apply (drule newValue_Type)
    apply (cases "rv_Kind lv")
    apply (auto simp add: resultTyped_def reads_Inr dest!: setter_Type)
    done
  done

lemma operatorShiftRight_result:
  assumes "operatorShiftRight m env left0 right0 = Inr res"
  shows "resultTyped m env left0 res"
  using assms unfolding operatorShiftRight_def
  apply (elim bindE_InrE)
  subgoal for left lv c amt newVal v
    apply (drule newValue_Type)
    apply (cases "rv_Kind lv")
    apply (auto simp add: resultTyped_def reads_Inr dest!: setter_Type)
    done
  done

lemma operatorShiftLeft_result:
  assumes "operatorShiftLeft m env left0 right0 = Inr res"
  shows "resultTyped m env left0 res"
  using assms unfolding operatorShiftLeft_def
  apply (elim bindE_InrE)
  subgoal for left lv c amt newVal v
    apply (drule newValue_Type)
    apply (cases "rv_Kind lv")
    apply (auto simp add: resultTyped_def reads_Inr dest!: setter_Type)
    done
  done

text \<open>
  C9. Whenever one of the eleven arithmetic and bitwise operators returns an Object, the
  type of the Object is the type of the normalised left operand, and its value is the
  zero value that the registry's reflect type for that type allocates, written by one
  setter: it has that reflect type, name and kind. The operators are functions of their
  operands, which they do not change.
\<close>

theorem arithmetic_result_has_left_type:
  assumes "op \<in> {operatorAdd, operatorSubtract, operatorMultiply,
                 operatorQuotient, operatorRemainder, operatorAnd,
                 operatorOr, operatorXor, operatorAndNot,
                 operatorShiftLeft, operatorShiftRight}"
    and "op m env left0 right0 = Inr res"
  shows "\<exists>left rt v. getTypedObject m left0 = Inr left
           \<and> Typ res = Typ left
           \<and> getReflectType env (Typ left) = Some rt
           \<and> Value res = Reflect v
           \<and> rv_Type v = rv_Type (getSettableZeroVal rt)
           \<and> rv_Type v = rt"
proof -
  from assms have "resultTyped m env left0 res"
    by (elim insertE emptyE)
       (simp_all add: operatorAdd_result operatorSubtract_result operatorMultiply_result operatorQuotient_result operatorRemainder_result operatorAnd_result
          operatorOr_result operatorXor_result operatorAndNot_result operatorShiftLeft_result operatorShiftRight_result)
  then show ?thesis
    by (auto simp add: resultTyped_def rv_Type_zero)
qed

theorem arithmetic_result_has_left_type_witness:
  "operatorAdd \<in> {operatorAdd, operatorSubtract, operatorMultiply,
                 operatorQuotient, operatorRemainder, operatorAnd,
                 operatorOr, operatorXor, operatorAndNot,
                 operatorShiftLeft, operatorShiftRight}
   \<and> operatorAdd nullHost sampleEnv (untypedInt 1) (objInt 2) = Inr (objInt 3)
   \<and> (\<exists>left rt v. getTypedObject nullHost (untypedInt 1) = Inr left
           \<and> Typ (objInt 3) = Typ left
           \<and> getReflectType sampleEnv (Typ left) = Some rt
           \<and> Value (objInt 3) = Reflect v
           \<and> rv_Type v = rv_Type (getSettableZeroVal rt)
           \<and> rv_Type v = rt)"
proof -
  have h1: "operatorAdd \<in> {operatorAdd, operatorSubtract, operatorMultiply,
                 operatorQuotient, operatorRemainder, operatorAnd,
                 operatorOr, operatorXor, operatorAndNot,
                 operatorShiftLeft, operatorShiftRight}"
    by simp
  have h2: "operatorAdd nullHost sampleEnv (untypedInt 1) (objInt 2) = Inr (objInt 3)"
    by (simp add: operatorAdd_def getTypedObject_def isTyped_def newValue_def
          getSettableZeroVal_def sample_defs ints_def go_conv_defs)
  from arithmetic_result_has_left_type [OF h1 h2] h1 h2 show ?thesis
    by blast
qed

subsection \<open>C10: the left shift of a Uint64\<close>

text \<open>
  C10. The switch of \<open>operatorShiftLeft\<close> has no case for \<open>reflect.Uint64\<close>: for a typed
  left operand of kind Uint64 it returns no Object, whatever the count and the registry,
  and with a valid count and a resolved type it ends in the default branch, the panic
  "Invalid operands to shift". \<open>operatorShiftRight\<close> and the other arithmetic and bitwise
  operators handle operands of kind Uint64.
\<close>

theorem operatorShiftLeft_no_Uint64:
  assumes "isTyped t"
  shows "(\<forall>env' right' res.
            operatorShiftLeft m env' \<lparr>Value = Reflect (RV n (VUint64 w)), Typ = t\<rparr> right' \<noteq> Inr res)
       \<and> (shiftCount right = Inr c \<and> rv_Uint c = Inr amt
            \<and> getReflectType env t = Some (RType nm reflect_Uint64) \<longrightarrow>
          operatorShiftLeft m env \<lparr>Value = Reflect (RV n (VUint64 w)), Typ = t\<rparr> right
            = Inl (Panic ''Type error: Invalid operands to shift'')
          \<and> operatorShiftRight m env \<lparr>Value = Reflect (RV n (VUint64 w)), Typ = t\<rparr> right
            = Inr \<lparr>Value = Reflect (RV nm (VUint64 (drop_bit (unat amt) w))), Typ = t\<rparr>)
       \<and> (isTyped t' \<and> getReflectType env t = Some (RType nm reflect_Uint64) \<longrightarrow>
          (\<forall>op \<in> {operatorAdd, operatorSubtract, operatorMultiply, operatorAnd, operatorOr,
                    operatorXor, operatorAndNot}.
             \<exists>res. op m env \<lparr>Value = Reflect (RV n (VUint64 w)), Typ = t\<rparr>
                             \<lparr>Value = Reflect (RV n' (VUint64 w')), Typ = t'\<rparr> = Inr res)
          \<and> (w' \<noteq> 0 \<longrightarrow>
               (\<forall>op \<in> {operatorQuotient, operatorRemainder}.
                  \<exists>res. op m env \<lparr>Value = Reflect (RV n (VUint64 w)), Typ = t\<rparr>
                                  \<lparr>Value = Reflect (RV n' (VUint64 w')), Typ = t'\<rparr> = Inr res)))"
proof -
  have never: "operatorShiftLeft m env' \<lparr>Value = Reflect (RV n (VUint64 w)), Typ = t\<rparr> right'
                 \<noteq> Inr res" for env' right' res
    using assms
    by (auto simp add: operatorShiftLeft_def getTypedObject_typed bindE_def split: sum.splits)
  have shifts: "operatorShiftLeft m env \<lparr>Value = Reflect (RV n (VUint64 w)), Typ = t\<rparr> right
            = Inl (Panic ''Type error: Invalid operands to shift'')
          \<and> operatorShiftRight m env \<lparr>Value = Reflect (RV n (VUint64 w)), Typ = t\<rparr> right
            = Inr \<lparr>Value = Reflect (RV nm (VUint64 (drop_bit (unat amt) w))), Typ = t\<rparr>"
    if "shiftCount right = Inr c" "rv_Uint c = Inr amt"
       "getReflectType env t = Some (RType nm reflect_Uint64)"
    using assms that
    by (simp add: operatorShiftLeft_def operatorShiftRight_def getTypedObject_typed
          newValue_def getSettableZeroVal_def shrU_def go_conv_defs)
  have others: "\<forall>op \<in> {operatorAdd, operatorSubtract, operatorMultiply, operatorAnd, operatorOr,
                    operatorXor, operatorAndNot}.
             \<exists>res. op m env \<lparr>Value = Reflect (RV n (VUint64 w)), Typ = t\<rparr>
                             \<lparr>Value = Reflect (RV n' (VUint64 w')), Typ = t'\<rparr> = Inr res"
    if "isTyped t'" "getReflectType env t = Some (RType nm reflect_Uint64)"
    using assms that
    by (simp add: operatorAdd_def operatorSubtract_def operatorMultiply_def operatorAnd_def
          operatorOr_def operatorXor_def operatorAndNot_def getTypedObject_typed
          newValue_def getSettableZeroVal_def uints_def)
  have divs: "\<forall>op \<in> {operatorQuotient, operatorRemainder}.
                  \<exists>res. op m env \<lparr>Value = Reflect (RV n (VUint64 w)), Typ = t\<rparr>
                                  \<lparr>Value = Reflect (RV n' (VUint64 w')), Typ = t'\<rparr> = Inr res"
    if "isTyped t'" "getReflectType env t = Some (RType nm reflect_Uint64)" "w' \<noteq> 0"
    using assms that
    by (simp add: operatorQuotient_def operatorRemainder_def getTypedObject_typed
          newValue_def getSettableZeroVal_def uints_def quoU_def remU_def go_conv_defs)
  from never shifts others divs show ?thesis by blast
qed

theorem operatorShiftLeft_no_Uint64_witness:
  "isTyped (Basic types_Uint64)
   \<and> shiftCount (objUint 3) = Inr (RV ''uint'' (VUint 3))
   \<and> rv_Uint (RV ''uint'' (VUint 3)) = Inr 3
   \<and> getReflectType sampleEnv (Basic types_Uint64) = Some (RType ''uint64'' reflect_Uint64)
   \<and> operatorShiftLeft nullHost sampleEnv (objUint64 1) (objUint 3)
        = Inl (Panic ''Type error: Invalid operands to shift'')
   \<and> operatorShiftRight nullHost sampleEnv (objUint64 16) (objUint 3) = Inr (objUint64 2)
   \<and> (\<exists>res. operatorAdd nullHost sampleEnv (objUint64 1) (objUint64 2) = Inr res)
   \<and> (\<exists>res. operatorQuotient nullHost sampleEnv (objUint64 1) (objUint64 2) = Inr res)"
proof -
  have h1: "isTyped (Basic types_Uint64)"
    by (simp add: isTyped_def)
  have h2: "shiftCount (objUint 3) = Inr (RV ''uint'' (VUint 3))"
    by (simp add: shiftCount_def objUint_def)
  have h3: "rv_Uint (RV ''uint'' (VUint 3)) = Inr 3"
    by simp
  have h4: "getReflectType sampleEnv (Basic types_Uint64) = Some (RType ''uint64'' reflect_Uint64)"
    by (simp add: sampleEnv_def)
  have h5: "(2 :: 64 word) \<noteq> 0"
    by simp
  note a = operatorShiftLeft_no_Uint64 [OF h1, of nullHost "''uint64''" 1 "objUint 3"
             "RV ''uint'' (VUint 3)" 3 sampleEnv "''uint64''" "Basic types_Uint64" "''uint64''" 2]
  note b = operatorShiftLeft_no_Uint64 [OF h1, of nullHost "''uint64''" 16 "objUint 3"
             "RV ''uint'' (VUint 3)" 3 sampleEnv "''uint64''" "Basic types_Uint64" "''uint64''" 2]
  from a h1 h2 h3 h4 h5
  have l: "operatorShiftLeft nullHost sampleEnv (objUint64 1) (objUint 3)
             = Inl (Panic ''Type error: Invalid operands to shift'')"
    and o: "\<exists>res. operatorAdd nullHost sampleEnv (objUint64 1) (objUint64 2) = Inr res"
    and q: "\<exists>res. operatorQuotient nullHost sampleEnv (objUint64 1) (objUint64 2) = Inr res"
    unfolding objUint64_def by blast+
  from b h2 h3 h4
  have "operatorShiftRight nullHost sampleEnv (objUint64 16) (objUint 3)
          = Inr \<lparr>Value = Reflect (RV ''uint64'' (VUint64 (drop_bit (unat (3 :: 64 word)) 16))),
                 Typ = Basic types_Uint64\<rparr>"
    unfolding objUint64_def by blast
  then have r: "operatorShiftRight nullHost sampleEnv (objUint64 16) (objUint 3)
                  = Inr (objUint64 2)"
    by (simp add: objUint64_def drop_bit_eq_div)
  from h1 h2 h3 h4 l r o q show ?thesis by blast
qed

end
